theory Spec2Isabelle
  imports Main "HOL-Library.Word" "HOL-Library.AList"
begin

section \<open>Python exceptions\<close>

text \<open>
  Every \<^verbatim>\<open>raise\<close> of \<^verbatim>\<open>robodm/trajectory.py\<close>, and every failing
  subscript or attribute access, is a value of this type. \<open>ValueError\<close> carries the
  message, since the source raises it with different messages in \<^verbatim>\<open>close\<close>,
  \<^verbatim>\<open>add\<close>, \<^verbatim>\<open>add_by_dict\<close>, \<^verbatim>\<open>from_dict_of_lists\<close> and
  \<^verbatim>\<open>load\<close>. \<open>AVError\<close> stands for an exception of the media library and
  \<open>H5Error\<close> for one of the cache file library.
\<close>

datatype error =
    ValueError string
  | FileNotFoundError
  | KeyError
  | IndexError
  | AttributeError
  | TypeError
  | UnpicklingError
  | AVError
  | H5Error

section \<open>Values and FeatureType\<close>

text \<open>
  One array element. A \<^verbatim>\<open>float32\<close> or \<^verbatim>\<open>float64\<close> number is kept as its
  IEEE-754 bit pattern; floating-point arithmetic is never computed here, the two
  places that need it take it from the environment (\<open>env\<close> below).
\<close>

datatype elem = U8 "8 word" | F32 "32 word" | F64 "64 word" | I64 int | Flag bool

text \<open>
  A feature value as \<^verbatim>\<open>add\<close> receives it: an n-d array (dtype name, shape,
  row-major elements), a scalar number or bool (with the canonical dtype name of its
  type) or a string.
\<close>

datatype val = Array string "nat list" "elem list" | Scalar string elem | Str string

text \<open>
  A possibly nested dict with leaves of type \<open>'a\<close>. A Python dict keeps insertion
  order, so it is an association list; \<open>AList.update\<close> is \<^verbatim>\<open>d[k] = v\<close>.
  The argument of \<^verbatim>\<open>add\<close> and \<^verbatim>\<open>add_by_dict\<close> is a \<open>val nested\<close>.
\<close>

datatype 'a nested = Leaf 'a | Dict "(string \<times> 'a nested) list"

record feature_type =
  dtype :: string
  shape :: "nat list"

text \<open>
  Modelled from the spec: \<^verbatim>\<open>robodm/feature.py\<close> (class FeatureType) is not among
  the sources. Section 4.1: \<^emph>\<open>if v is an n-d array, take its dtype and shape; if v is a
  scalar number/bool/string, shape is () and dtype is the canonical name for its
  type\<close>.
\<close>

fun from_data :: "val \<Rightarrow> feature_type" where
  "from_data (Array d s xs) = \<lparr>dtype = d, shape = s\<rparr>"
| "from_data (Scalar d x) = \<lparr>dtype = d, shape = []\<rparr>"
| "from_data (Str s) = \<lparr>dtype = ''string'', shape = []\<rparr>"

text \<open>
  Modelled from the spec: the textual form of a FeatureType
  (\<^verbatim>\<open>str(feature_type)\<close>, \<^verbatim>\<open>FeatureType.from_str\<close>) is \<^emph>\<open>an implementation
  choice\<close> that round-trips dtype and shape. A stream's metadata value is therefore
  either a plain string or \<open>TypeStr t\<close>, the printed form of the FeatureType \<open>t\<close>;
  \<open>from_str\<close> reads the latter back and fails on anything else, also on the
  \<^verbatim>\<open>None\<close> that \<^verbatim>\<open>metadata.get\<close> returns for a missing key.
\<close>

datatype meta = Text string | TypeStr feature_type

fun from_str :: "meta option \<Rightarrow> error + feature_type" where
  "from_str (Some (TypeStr t)) = Inr t"
| "from_str (Some (Text s)) = Inl (ValueError ''not a FeatureType string'')"
| "from_str None = Inl TypeError"

section \<open>The media container\<close>

text \<open>
  The PyAV objects the source works on, as far as the source reads and writes them.
  A time base is a fraction, \<^verbatim>\<open>Fraction(1, 1000)\<close> is \<open>(1, 1000)\<close>.
\<close>

type_synonym fraction = "int \<times> int"

record video_frame =
  format :: string
  frame_shape :: "nat list"
  plane :: "8 word list"
  pict_type :: string
  frame_pts :: "int option"
  frame_dts :: "int option"
  frame_time_base :: "fraction option"

text \<open>
  A packet body: the pickled value of a \<^verbatim>\<open>rawvideo\<close> packet
  (\<^verbatim>\<open>pickle.dumps\<close>, read back by \<^verbatim>\<open>pickle.loads\<close>), the encoded frame of
  a video packet, or nothing (the empty packet that ends a demux).
\<close>

datatype body = Pickled val | Encoded video_frame | Empty

record packet =
  stream_index :: nat
  pts :: "int option"
  dts :: "int option"
  packet_time_base :: "fraction option"
  payload :: body

text \<open>
  A stream; its \<^verbatim>\<open>index\<close> is its position in the container's stream table.
  \<open>pending\<close> is the state of its encoder: the frames submitted and not yet emitted.
\<close>

record stream =
  codec_name :: string
  width :: "nat option"
  height :: "nat option"
  options :: "(string \<times> string) list"
  metadata :: "(string \<times> meta) list"
  time_base :: "fraction option"
  pending :: "video_frame list"

record container =
  streams :: "stream list"
  packets :: "packet list"
  container_closed :: bool

section \<open>The environment\<close>

text \<open>
  What the source takes from outside: the wall clock (\<open>clock e n\<close> is the \<open>n\<close>-th
  reading of \<^verbatim>\<open>(time.time() - self.start_time) * 1000\<close>, as the integer the packet
  stores), Python's string hash, numpy's floating-point casts, the encoders' delay
  (how many frames a codec holds back before it emits a packet), what a lossy codec
  does to a frame, the pixel format conversion of \<^verbatim>\<open>to_ndarray\<close>,
  \<^verbatim>\<open>str\<close> on a value, and whether the cache file library stores an object
  array at all.
\<close>

record env =
  clock :: "nat \<Rightarrow> int"
  hash_hex :: "string \<Rightarrow> string"
  scale255_uint8 :: "32 word \<Rightarrow> 8 word"
  float_to_uint8 :: "elem \<Rightarrow> 8 word"
  encoder_delay :: "string \<Rightarrow> nat"
  codec_loss :: "string \<Rightarrow> video_frame \<Rightarrow> video_frame"
  reformat :: "string \<Rightarrow> video_frame \<Rightarrow> 8 word list"
  py_str :: "val \<Rightarrow> string"
  h5_stores_objects :: bool

section \<open>The Trajectory object and the files\<close>

text \<open>
  The fields of \<^verbatim>\<open>Trajectory.__init__\<close> that the modelled methods read.
  \<open>container_file\<close> is the handle of the open container: the path it was opened at,
  the container itself is in the file system under that path. A stream object is
  kept as its index.
\<close>

record trajectory =
  path :: string
  feature_name_separator :: string
  cache_file_name :: string
  feature_name_to_stream :: "(string \<times> nat) list"
  feature_name_to_feature_type :: "(string \<times> feature_type) list"
  mode :: string
  is_closed :: bool
  lossy_compression :: bool
  container_file :: "string option"

text \<open>
  A numpy array as \<^verbatim>\<open>_load_from_container\<close> builds it: one slot per step, and a
  slot of \<^verbatim>\<open>np.empty\<close> that was never assigned is \<open>None\<close>.
\<close>

record ndarray =
  np_dtype :: string
  np_shape :: "nat list"
  slots :: "val option list"

text \<open>
  The decoded cache file (h5py): groups and datasets. \<open>Unreadable\<close> is a file that
  \<^verbatim>\<open>h5py.File(name, "r")\<close> fails to read.
\<close>

datatype h5node = Dataset ndarray | Group "(string \<times> h5node) list"

datatype h5file = H5 "(string \<times> h5node) list" | Unreadable

text \<open>
  The world outside the object: the container files and the cache files by path, and
  how often the clock has been read.
\<close>

record world =
  files :: "string \<rightharpoonup> container"
  caches :: "string \<rightharpoonup> h5file"
  ticks :: nat

text \<open>\<^verbatim>\<open>Trajectory._get_current_timestamp\<close> (lines 105-107).\<close>

definition get_current_timestamp :: "env \<Rightarrow> world \<Rightarrow> int \<times> world" where
  "get_current_timestamp e w = (clock e (ticks w), w\<lparr>ticks := Suc (ticks w)\<rparr>)"

section \<open>The media library\<close>

text \<open>
  The calls into PyAV, modelled as succeeding: \<^verbatim>\<open>av.open(path, mode="w")\<close> creates
  an empty container at the path, \<^verbatim>\<open>container.mux\<close> appends the packet to the file,
  \<^verbatim>\<open>container.demux(streams)\<close> yields the packets of these streams in file order
  and then one empty packet (no pts, no dts, no body) per stream,
  \<^verbatim>\<open>stream.encode(frame)\<close> queues the frame and emits the oldest queued frame once
  more than the codec's delay are queued, and \<^verbatim>\<open>stream.encode(None)\<close> emits all
  that is queued.
\<close>

definition empty_container :: container where
  "empty_container = \<lparr>streams = [], packets = [], container_closed = False\<rparr>"

definition mux :: "packet \<Rightarrow> container \<Rightarrow> container" where
  "mux p c = c\<lparr>packets := packets c @ [p]\<rparr>"

definition flush_packet :: "nat \<Rightarrow> packet" where
  "flush_packet i =
     \<lparr>stream_index = i, pts = None, dts = None, packet_time_base = None, payload = Empty\<rparr>"

definition demux :: "container \<Rightarrow> nat list \<Rightarrow> packet list" where
  "demux c idxs =
     filter (\<lambda>p. stream_index p \<in> set idxs) (packets c) @ map flush_packet idxs"

definition packet_of_frame :: "nat \<Rightarrow> video_frame \<Rightarrow> packet" where
  "packet_of_frame i f =
     \<lparr>stream_index = i, pts = frame_pts f, dts = frame_dts f,
      packet_time_base = frame_time_base f, payload = Encoded f\<rparr>"

definition stream_encode ::
  "env \<Rightarrow> nat \<Rightarrow> video_frame option \<Rightarrow> container \<Rightarrow> packet list \<times> container" where
  "stream_encode e i frame c =
     (if i < length (streams c) then
        (let st = streams c ! i in
         case frame of
           None \<Rightarrow>
             (map (packet_of_frame i) (pending st),
              c\<lparr>streams := (streams c)[i := st\<lparr>pending := []\<rparr>]\<rparr>)
         | Some f \<Rightarrow>
             (let q = pending st @ [f] in
              if length q > encoder_delay e (codec_name st)
              then ([packet_of_frame i (hd q)],
                    c\<lparr>streams := (streams c)[i := st\<lparr>pending := tl q\<rparr>]\<rparr>)
              else ([], c\<lparr>streams := (streams c)[i := st\<lparr>pending := q\<rparr>]\<rparr>)))
      else ([], c))"

section \<open>Stream creation\<close>

text \<open>
  \<^verbatim>\<open>Trajectory._add_stream_to_container\<close> (lines 744-770). The stream is in the
  container from the first line on, so the container comes back also when
  \<^verbatim>\<open>feature_type.shape[1]\<close> raises.
\<close>

definition add_stream_to_container ::
  "container \<Rightarrow> string \<Rightarrow> string \<Rightarrow> feature_type \<Rightarrow> (error + nat) \<times> container" where
  "add_stream_to_container c feature_name encoding ftype =
     (let i = length (streams c);
          st = \<lparr>codec_name = encoding, width = None, height = None, options = [],
                metadata = [], time_base = None, pending = []\<rparr>
      in
      if (encoding = ''ffv1'' \<or> encoding = ''libaom-av1'') \<and> length (shape ftype) < 2
      then (Inl IndexError, c\<lparr>streams := streams c @ [st]\<rparr>)
      else
        (let st1 = (if encoding = ''ffv1''
                    then st\<lparr>width := Some (shape ftype ! 1), height := Some (shape ftype ! 0)\<rparr>
                    else st);
             st2 = (if encoding = ''libaom-av1''
                    then st1\<lparr>width := Some (shape ftype ! 1), height := Some (shape ftype ! 0),
                             options := [(''g'', ''2''), (''crf'', ''23'')]\<rparr>
                    else st1);
             st3 = st2\<lparr>metadata := AList.update ''FEATURE_NAME'' (Text feature_name) (metadata st2)\<rparr>;
             st4 = st3\<lparr>metadata := AList.update ''FEATURE_TYPE'' (TypeStr ftype) (metadata st3)\<rparr>;
             st5 = st4\<lparr>time_base := Some (1, 1000)\<rparr>
         in (Inr i, c\<lparr>streams := streams c @ [st5]\<rparr>)))"

text \<open>
  \<^verbatim>\<open>stream.metadata.get("FEATURE_NAME")\<close>; a feature name is a plain string.
\<close>

definition feature_name_of :: "stream \<Rightarrow> string option" where
  "feature_name_of st =
     (case map_of (metadata st) ''FEATURE_NAME'' of Some (Text n) \<Rightarrow> Some n | _ \<Rightarrow> None)"

text \<open>
  \<^verbatim>\<open>for key, value in stream.metadata.items(): new.metadata[key] = value\<close>
\<close>

definition copy_metadata :: "stream \<Rightarrow> stream \<Rightarrow> stream" where
  "copy_metadata src dst =
     dst\<lparr>metadata := fold (\<lambda>(key, v) md. AList.update key v md) (metadata src) (metadata dst)\<rparr>"

section \<open>Frame codec\<close>

text \<open>
  \<^verbatim>\<open>np.array(image_array, dtype=np.uint8)\<close> on one element: an integer wraps, a
  float is cast by the platform.
\<close>

definition astype_uint8 :: "env \<Rightarrow> elem \<Rightarrow> 8 word" where
  "astype_uint8 e x =
     (case x of
        U8 b \<Rightarrow> b
      | I64 n \<Rightarrow> word_of_int n
      | Flag b \<Rightarrow> (if b then 1 else 0)
      | F32 b \<Rightarrow> float_to_uint8 e (F32 b)
      | F64 b \<Rightarrow> float_to_uint8 e (F64 b))"

text \<open>The elements and the shape of \<^verbatim>\<open>np.array(value)\<close>.\<close>

fun np_elems :: "val \<Rightarrow> elem list" where
  "np_elems (Array d s xs) = xs"
| "np_elems (Scalar d x) = [x]"
| "np_elems (Str s) = []"

text \<open>
  \<^verbatim>\<open>Trajectory._create_frame\<close> (lines 772-775): an \<^verbatim>\<open>rgb24\<close> frame of the array
  cast to uint8.
\<close>

definition create_frame :: "env \<Rightarrow> val \<Rightarrow> video_frame" where
  "create_frame e image_array =
     \<lparr>format = ''rgb24'', frame_shape = shape (from_data image_array),
      plane = map (astype_uint8 e) (np_elems image_array), pict_type = ''NONE'',
      frame_pts = None, frame_dts = None, frame_time_base = None\<rparr>"

text \<open>
  \<^verbatim>\<open>image_array[:, :, 0]\<close> of a row-major array of shape \<open>(h, w, c)\<close>: every
  \<open>c\<close>-th element, starting with the first.
\<close>

fun first_channel :: "nat \<Rightarrow> 'a list \<Rightarrow> 'a list" where
  "first_channel c [] = []"
| "first_channel c (x # xs) = x # first_channel c (drop (c - 1) xs)"

text \<open>
  \<^verbatim>\<open>Trajectory._create_frame_depth\<close> (lines 777-789): a float32 array is scaled
  by 255 and cast to uint8, a 3-dimensional array is cut to its first channel, and
  the result is a \<^verbatim>\<open>gray\<close> frame.
\<close>

definition create_frame_depth :: "env \<Rightarrow> val \<Rightarrow> stream \<Rightarrow> video_frame" where
  "create_frame_depth e image_array st =
     (let dt = dtype (from_data image_array);
          shp = shape (from_data image_array);
          xs = np_elems image_array;
          scaled = (if dt = ''float32''
                    then map (\<lambda>x. case x of F32 b \<Rightarrow> scale255_uint8 e b
                                            | _ \<Rightarrow> astype_uint8 e x) xs
                    else map (astype_uint8 e) xs);
          (shp2, data2) = (if length shp = 3
                           then (take 2 shp, first_channel (shp ! 2) scaled)
                           else (shp, scaled))
      in \<lparr>format = ''gray'', frame_shape = shp2, plane = data2, pict_type = ''NONE'',
          frame_pts = None, frame_dts = None, frame_time_base = time_base st\<rparr>)"

section \<open>Codec selector\<close>

text \<open>
  \<^verbatim>\<open>Trajectory._get_encoding_of_feature\<close> (lines 791-812). Every caller passes
  \<^verbatim>\<open>None\<close> for the value and a FeatureType; with neither, \<^verbatim>\<open>from_data(None)\<close>
  has nothing to inspect.
\<close>

definition get_encoding_of_feature ::
  "trajectory \<Rightarrow> val option \<Rightarrow> feature_type option \<Rightarrow> error + string" where
  "get_encoding_of_feature self feature_value ftype =
     (case (case ftype of
              Some t \<Rightarrow> Inr t
            | None \<Rightarrow> (case feature_value of
                         Some v \<Rightarrow> Inr (from_data v)
                       | None \<Rightarrow> Inl TypeError)) of
        Inl e \<Rightarrow> Inl e
      | Inr t \<Rightarrow>
          (let data_shape = shape t in
           if length data_shape \<ge> 2 \<and> data_shape ! 0 \<ge> 100 \<and> data_shape ! 1 \<ge> 100
           then (if lossy_compression self then Inr ''libaom-av1'' else Inr ''ffv1'')
           else Inr ''rawvideo''))"

section \<open>Encoding a value\<close>

definition stamp :: "int option \<Rightarrow> packet \<Rightarrow> packet" where
  "stamp ts p = p\<lparr>pts := ts, dts := ts\<rparr>"

text \<open>
  \<^verbatim>\<open>Trajectory._encode_frame\<close> (lines 631-666). The stream is the one with this
  index in the container; the encoder's queue changes, so the container comes back.
\<close>

definition encode_frame ::
  "env \<Rightarrow> val \<Rightarrow> nat \<Rightarrow> int \<Rightarrow> container \<Rightarrow> (error + packet list) \<times> container" where
  "encode_frame e data i timestamp c =
     (if i < length (streams c) then
        (let st = streams c ! i;
             encoding = codec_name st;
             ftype = from_data data
         in
         if encoding = ''ffv1'' \<or> encoding = ''libaom-av1'' then
           (let frame0 = (if dtype ftype = ''float32''
                          then create_frame_depth e data st
                          else create_frame e data);
                frame = frame0\<lparr>frame_pts := Some timestamp, frame_dts := Some timestamp,
                               frame_time_base := time_base st\<rparr>;
                (pkts, c1) = stream_encode e i (Some frame) c
            in (Inr (map (\<lambda>p. (stamp (Some timestamp) p)\<lparr>packet_time_base := time_base st\<rparr>) pkts),
                c1))
         else
           (let pkt = \<lparr>stream_index = i, pts = Some timestamp, dts = Some timestamp,
                       packet_time_base = time_base st, payload = Pickled data\<rparr>
            in (Inr (map (\<lambda>p. (stamp (Some timestamp) p)\<lparr>packet_time_base := time_base st\<rparr>) [pkt]),
                c)))
      else (Inl AVError, c))"

section \<open>Closing and transcoding\<close>

text \<open>
  The flush loop of \<^verbatim>\<open>close\<close> (lines 135-143) and of
  \<^verbatim>\<open>_transcode_pickled_images\<close> (lines 607-612): every stream's encoder is
  drained and the packets are muxed with \<open>pts = dts = ts\<close>.
\<close>

fun flush_streams :: "env \<Rightarrow> int option \<Rightarrow> nat list \<Rightarrow> container \<Rightarrow> container" where
  "flush_streams e ts [] c = c"
| "flush_streams e ts (i # rest) c =
     (let (pkts, c1) = stream_encode e i None c
      in flush_streams e ts rest (fold (\<lambda>p. mux (stamp ts p)) pkts c1))"

text \<open>
  The stream loop of \<^verbatim>\<open>_on_new_stream\<close> (lines 696-711) and of
  \<^verbatim>\<open>_transcode_pickled_images\<close> (lines 557-577): every source stream with a
  \<^verbatim>\<open>FEATURE_NAME\<close> gets a counterpart in the new container, with the type the
  trajectory has recorded for the feature and the source's metadata copied over; \<open>d\<close>
  maps the source index to the new index. The two loops differ in the encoding,
  \<open>pick\<close>: the source stream's codec in the first, the codec selector's answer in
  the second.
\<close>

fun rebuild_streams ::
  "(stream \<Rightarrow> feature_type \<Rightarrow> error + string) \<Rightarrow> trajectory \<Rightarrow> (nat \<times> stream) list
   \<Rightarrow> container \<Rightarrow> (nat \<times> nat) list \<Rightarrow> error option \<times> container \<times> (nat \<times> nat) list" where
  "rebuild_streams pick self [] nc d = (None, nc, d)"
| "rebuild_streams pick self ((idx, st) # rest) nc d =
     (case feature_name_of st of
        None \<Rightarrow> rebuild_streams pick self rest nc d
      | Some stream_feature \<Rightarrow>
          (case map_of (feature_name_to_feature_type self) stream_feature of
             None \<Rightarrow> (Some KeyError, nc, d)
           | Some stream_feature_type \<Rightarrow>
               (case pick st stream_feature_type of
                  Inl err \<Rightarrow> (Some err, nc, d)
                | Inr stream_encoding \<Rightarrow>
                    (case add_stream_to_container nc stream_feature stream_encoding
                            stream_feature_type of
                       (Inl err, nc1) \<Rightarrow> (Some err, nc1, d)
                     | (Inr j, nc1) \<Rightarrow>
                         rebuild_streams pick self rest
                           (nc1\<lparr>streams := (streams nc1)[j := copy_metadata st (streams nc1 ! j)]\<rparr>)
                           (AList.update idx j d)))))"

definition same_codec :: "stream \<Rightarrow> feature_type \<Rightarrow> error + string" where
  "same_codec st ftype = Inr (codec_name st)"

definition selected_codec :: "trajectory \<Rightarrow> stream \<Rightarrow> feature_type \<Rightarrow> error + string" where
  "selected_codec self st ftype = get_encoding_of_feature self None (Some ftype)"

definition is_packet_valid :: "packet \<Rightarrow> bool" where
  "is_packet_valid p = (pts p \<noteq> None \<and> dts p \<noteq> None)"

text \<open>The packet loop of \<^verbatim>\<open>_on_new_stream\<close> (lines 723-734).\<close>

fun remux_packets ::
  "(nat \<times> nat) list \<Rightarrow> packet list \<Rightarrow> container \<Rightarrow> error option \<times> container" where
  "remux_packets d [] nc = (None, nc)"
| "remux_packets d (p # ps) nc =
     (if is_packet_valid p then
        (case map_of d (stream_index p) of
           None \<Rightarrow> (Some KeyError, nc)
         | Some j \<Rightarrow> remux_packets d ps (mux (p\<lparr>stream_index := j\<rparr>) nc))
      else remux_packets d ps nc)"

text \<open>
  The packet loop of \<^verbatim>\<open>_transcode_pickled_images\<close> (lines 581-604). The test is
  on the codec of the \<^emph>\<open>new\<close> stream, after the packet has been moved to it.
\<close>

fun transcode_packets ::
  "env \<Rightarrow> (nat \<times> nat) list \<Rightarrow> packet list \<Rightarrow> container \<Rightarrow> error option \<times> container" where
  "transcode_packets e d [] nc = (None, nc)"
| "transcode_packets e d (p # ps) nc =
     (if is_packet_valid p then
        (case map_of d (stream_index p) of
           None \<Rightarrow> (Some KeyError, nc)
         | Some j \<Rightarrow>
             (if j < length (streams nc)
                 \<and> (codec_name (streams nc ! j) = ''ffv1''
                    \<or> codec_name (streams nc ! j) = ''libaom-av1'')
              then
                (case (payload p, pts p) of
                   (Pickled data, Some t) \<Rightarrow>
                     (case encode_frame e data j t nc of
                        (Inl err, nc1) \<Rightarrow> (Some err, nc1)
                      | (Inr new_packets, nc1) \<Rightarrow>
                          transcode_packets e d ps (fold mux new_packets nc1))
                 | _ \<Rightarrow> (Some UnpicklingError, nc))
              else transcode_packets e d ps (mux (p\<lparr>stream_index := j\<rparr>) nc)))
      else transcode_packets e d ps nc)"

definition enumerate_streams :: "container \<Rightarrow> (nat \<times> stream) list" where
  "enumerate_streams c = zip [0..<length (streams c)] (streams c)"

definition put_file :: "string \<Rightarrow> container \<Rightarrow> world \<Rightarrow> world" where
  "put_file p c w = w\<lparr>files := (files w)(p \<mapsto> c)\<rparr>"

definition remove_file :: "string \<Rightarrow> world \<Rightarrow> world" where
  "remove_file p w = w\<lparr>files := (files w)(p := None)\<rparr>"

text \<open>
  \<^verbatim>\<open>Trajectory._transcode_pickled_images\<close> (lines 539-618).
  \<^verbatim>\<open>os.rename\<close> fails when the file is not there.
\<close>

definition transcode_pickled_images ::
  "env \<Rightarrow> int option \<Rightarrow> trajectory \<times> world \<Rightarrow> error option \<times> trajectory \<times> world" where
  "transcode_pickled_images e ending_timestamp s =
     (case s of (self, w) \<Rightarrow>
      (let temp_path = path self @ ''.temp'' in
       case files w (path self) of
         None \<Rightarrow> (Some FileNotFoundError, self, w)
       | Some original_container \<Rightarrow>
           (let w1 = put_file temp_path original_container (remove_file (path self) w);
                w2 = put_file (path self) empty_container w1
            in
            case rebuild_streams (selected_codec self) self
                   (enumerate_streams original_container) empty_container [] of
              (Some err, nc, d) \<Rightarrow> (Some err, self, put_file (path self) nc w2)
            | (None, nc, d) \<Rightarrow>
                (case transcode_packets e d
                        (demux original_container [0..<length (streams original_container)]) nc of
                   (Some err, nc1) \<Rightarrow> (Some err, self, put_file (path self) nc1 w2)
                 | (None, nc1) \<Rightarrow>
                     (let nc2 = flush_streams e ending_timestamp [0..<length (streams nc1)] nc1
                      in (None, self\<lparr>container_file := Some (path self)\<rparr>,
                          remove_file temp_path (put_file (path self) nc2 w2)))))))"

text \<open>
  \<^verbatim>\<open>Trajectory.close\<close> (lines 124-155). \<^verbatim>\<open>self.container_file\<close> is
  \<^verbatim>\<open>None\<close> after a close and was never set in read mode, so its
  \<^verbatim>\<open>.streams\<close> raises.
\<close>

definition close ::
  "env \<Rightarrow> bool \<Rightarrow> trajectory \<times> world \<Rightarrow> error option \<times> trajectory \<times> world" where
  "close e compact s =
     (case s of (self, w) \<Rightarrow>
      if is_closed self
      then (Some (ValueError ''The container file is already closed''), self, w)
      else
        (case get_current_timestamp e w of (ts, w1) \<Rightarrow>
         (case container_file self of
            None \<Rightarrow> (Some AttributeError, self, w1)
          | Some h \<Rightarrow>
              (case files w1 h of
                 None \<Rightarrow> (Some AVError, self, w1)
               | Some c \<Rightarrow>
                   (let c1 = flush_streams e (Some ts) [0..<length (streams c)] c;
                        w2 = put_file h (c1\<lparr>container_closed := True\<rparr>) w1
                    in
                    case (if compact then transcode_pickled_images e (Some ts) (self, w2)
                          else (None, self, w2)) of
                      (Some err, self3, w3) \<Rightarrow> (Some err, self3, w3)
                    | (None, self3, w3) \<Rightarrow>
                        (case container_file self3 of
                           None \<Rightarrow> (Some AttributeError, self3, w3)
                         | Some h3 \<Rightarrow>
                             (case files w3 h3 of
                                None \<Rightarrow> (Some AVError, self3, w3)
                              | Some c3 \<Rightarrow>
                                  (None,
                                   self3\<lparr>container_file := None, is_closed := True\<rparr>,
                                   put_file h3 (c3\<lparr>container_closed := True\<rparr>) w3))))))))"

section \<open>Writing\<close>

text \<open>
  \<^verbatim>\<open>Trajectory._on_new_stream\<close> (lines 668-742): the first stream is added to
  the open container; a later one by the rewrite of the file.
\<close>

definition on_new_stream ::
  "env \<Rightarrow> string \<Rightarrow> string \<Rightarrow> feature_type \<Rightarrow> trajectory \<times> world
   \<Rightarrow> error option \<times> trajectory \<times> world" where
  "on_new_stream e new_feature new_encoding new_feature_type s =
     (case s of (self, w) \<Rightarrow>
      if map_of (feature_name_to_stream self) new_feature \<noteq> None then (None, self, w)
      else if feature_name_to_stream self = [] then
        (case container_file self of
           None \<Rightarrow> (Some AttributeError, self, w)
         | Some h \<Rightarrow>
             (case files w h of
                None \<Rightarrow> (Some AVError, self, w)
              | Some c \<Rightarrow>
                  (case add_stream_to_container c new_feature new_encoding new_feature_type of
                     (Inl err, c1) \<Rightarrow> (Some err, self, put_file h c1 w)
                   | (Inr i, c1) \<Rightarrow>
                       (None,
                        self\<lparr>feature_name_to_stream :=
                                AList.update new_feature i (feature_name_to_stream self)\<rparr>,
                        put_file h c1 w))))
      else
        (case close e False (self, w) of
           (Some err, self1, w1) \<Rightarrow> (Some err, self1, w1)
         | (None, self1, w1) \<Rightarrow>
             (let temp_path = path self1 @ ''.temp'' in
              case files w1 (path self1) of
                None \<Rightarrow> (Some FileNotFoundError, self1, w1)
              | Some original_container \<Rightarrow>
                  (let w2 = put_file temp_path original_container (remove_file (path self1) w1);
                       w3 = put_file (path self1) empty_container w2
                   in
                   case rebuild_streams same_codec self1
                          (enumerate_streams original_container) empty_container [] of
                     (Some err, nc, d) \<Rightarrow> (Some err, self1, put_file (path self1) nc w3)
                   | (None, nc, d) \<Rightarrow>
                       (case add_stream_to_container nc new_feature new_encoding
                               new_feature_type of
                          (Inl err, nc1) \<Rightarrow> (Some err, self1, put_file (path self1) nc1 w3)
                        | (Inr new_stream, nc1) \<Rightarrow>
                            (case remux_packets (AList.update new_stream new_stream d)
                                    (demux original_container
                                       [0..<length (streams original_container)]) nc1 of
                               (Some err, nc2) \<Rightarrow>
                                 (Some err, self1, put_file (path self1) nc2 w3)
                             | (None, nc2) \<Rightarrow>
                                 (None,
                                  self1\<lparr>container_file := Some (path self1),
                                         feature_name_to_stream :=
                                           AList.update new_feature new_stream
                                             (feature_name_to_stream self1),
                                         is_closed := False\<rparr>,
                                  remove_file temp_path
                                    (put_file (path self1) nc2 w3))))))))"

text \<open>
  \<^verbatim>\<open>Trajectory.add\<close> (lines 237-295). The encoding handed to
  \<^verbatim>\<open>_on_new_stream\<close> is the literal \<^verbatim>\<open>"rawvideo"\<close>.
\<close>

definition add ::
  "env \<Rightarrow> string \<Rightarrow> val nested \<Rightarrow> int option \<Rightarrow> trajectory \<times> world
   \<Rightarrow> error option \<times> trajectory \<times> world" where
  "add e feature data timestamp s =
     (case s of (self, w) \<Rightarrow>
      case data of
        Dict d \<Rightarrow> (Some (ValueError ''Use add_by_dict for dictionary''), self, w)
      | Leaf v \<Rightarrow>
          (let ftype = from_data v;
               self1 = self\<lparr>feature_name_to_feature_type :=
                              AList.update feature ftype (feature_name_to_feature_type self)\<rparr>
           in
           case (if map_of (feature_name_to_stream self1) feature = None
                 then on_new_stream e feature ''rawvideo'' ftype (self1, w)
                 else (None, self1, w)) of
             (Some err, self2, w2) \<Rightarrow> (Some err, self2, w2)
           | (None, self2, w2) \<Rightarrow>
               (case map_of (feature_name_to_stream self2) feature of
                  None \<Rightarrow> (Some KeyError, self2, w2)
                | Some st \<Rightarrow>
                    (case (case timestamp of
                             None \<Rightarrow> get_current_timestamp e w2
                           | Some t \<Rightarrow> (t, w2)) of
                       (ts, w3) \<Rightarrow>
                         (case container_file self2 of
                            None \<Rightarrow> (Some AttributeError, self2, w3)
                          | Some h \<Rightarrow>
                              (case files w3 h of
                                 None \<Rightarrow> (Some AVError, self2, w3)
                               | Some c \<Rightarrow>
                                   (case encode_frame e v st ts c of
                                      (Inl err, c1) \<Rightarrow> (Some err, self2, put_file h c1 w3)
                                    | (Inr pkts, c1) \<Rightarrow>
                                        (None, self2, put_file h (fold mux pkts c1) w3))))))))"

text \<open>
  \<^verbatim>\<open>_flatten_dict\<close> (lines 21-29). \<open>flatten_items\<close> is the list \<^verbatim>\<open>items\<close>,
  \<open>dict_of\<close> is \<^verbatim>\<open>dict(items)\<close>: a key that comes twice keeps its first place
  and its last value.
\<close>

definition dict_of :: "('k \<times> 'v) list \<Rightarrow> ('k \<times> 'v) list" where
  "dict_of items = fold (\<lambda>(k, v) d. AList.update k v d) items []"

fun flatten_items :: "(string \<times> 'a nested) list \<Rightarrow> string \<Rightarrow> string \<Rightarrow> (string \<times> 'a) list" where
  "flatten_items [] parent_key sep = []"
| "flatten_items ((k, Leaf v) # rest) parent_key sep =
     ((if parent_key \<noteq> [] then parent_key @ sep @ k else k), v)
       # flatten_items rest parent_key sep"
| "flatten_items ((k, Dict d) # rest) parent_key sep =
     dict_of (flatten_items d (if parent_key \<noteq> [] then parent_key @ sep @ k else k) sep)
       @ flatten_items rest parent_key sep"

definition flatten_dict :: "(string \<times> 'a nested) list \<Rightarrow> string \<Rightarrow> (string \<times> 'a) list" where
  "flatten_dict d sep = dict_of (flatten_items d [] sep)"

text \<open>The loop of \<^verbatim>\<open>add_by_dict\<close> (lines 324-325); an exception ends it.\<close>

fun add_each ::
  "env \<Rightarrow> (string \<times> val) list \<Rightarrow> int \<Rightarrow> trajectory \<times> world
   \<Rightarrow> error option \<times> trajectory \<times> world" where
  "add_each e [] ts s = (None, s)"
| "add_each e ((feature, v) # rest) ts s =
     (case add e feature (Leaf v) (Some ts) s of
        (Some err, s1) \<Rightarrow> (Some err, s1)
      | (None, s1) \<Rightarrow> add_each e rest ts s1)"

text \<open>\<^verbatim>\<open>Trajectory.add_by_dict\<close> (lines 297-325).\<close>

definition add_by_dict ::
  "env \<Rightarrow> val nested \<Rightarrow> int option \<Rightarrow> trajectory \<times> world
   \<Rightarrow> error option \<times> trajectory \<times> world" where
  "add_by_dict e data timestamp s =
     (case s of (self, w) \<Rightarrow>
      case data of
        Leaf v \<Rightarrow> (Some (ValueError ''Use add for non-dictionary data''), self, w)
      | Dict d \<Rightarrow>
          (let flat = flatten_dict d (feature_name_separator self) in
           case (case timestamp of
                   None \<Rightarrow> get_current_timestamp e w
                 | Some t \<Rightarrow> (t, w)) of
             (ts, w1) \<Rightarrow> add_each e flat ts (self, w1)))"

section \<open>Constructors\<close>

text \<open>
  \<^verbatim>\<open>Trajectory.__init__\<close> (lines 46-103). In write mode \<^verbatim>\<open>av.open\<close> creates
  the file, empty, at once. Directories are not modelled.
\<close>

definition init ::
  "env \<Rightarrow> string \<Rightarrow> string \<Rightarrow> string \<Rightarrow> bool \<Rightarrow> string \<Rightarrow> world
   \<Rightarrow> (error + trajectory) \<times> world" where
  "init e p md cache_dir lossy sep w =
     (let self = \<lparr>path = p, feature_name_separator = sep,
                   cache_file_name = cache_dir @ hash_hex e p @ ''.cache'',
                   feature_name_to_stream = [], feature_name_to_feature_type = [],
                   mode = md, is_closed = False, lossy_compression = lossy,
                   container_file = None\<rparr>
      in
      if md = ''w'' then
        (Inr (self\<lparr>container_file := Some p\<rparr>), put_file p empty_container w)
      else if md = ''r'' then
        (if files w p = None then (Inl FileNotFoundError, w) else (Inr self, w))
      else (Inl (ValueError ''Invalid mode, must be r or w''), w))"

definition default_cache_dir :: string where
  "default_cache_dir = ''/tmp/robodm/cache/''"

text \<open>The loop over the steps of both bulk constructors.\<close>

fun add_steps ::
  "env \<Rightarrow> val nested list \<Rightarrow> trajectory \<times> world \<Rightarrow> error option \<times> trajectory \<times> world" where
  "add_steps e [] s = (None, s)"
| "add_steps e (step # rest) s =
     (case add_by_dict e step None s of
        (Some err, s1) \<Rightarrow> (Some err, s1)
      | (None, s1) \<Rightarrow> add_steps e rest s1)"

text \<open>\<^verbatim>\<open>Trajectory.from_list_of_dicts\<close> (lines 327-349).\<close>

definition from_list_of_dicts ::
  "env \<Rightarrow> val nested list \<Rightarrow> string \<Rightarrow> bool \<Rightarrow> world \<Rightarrow> (error + trajectory) \<times> world" where
  "from_list_of_dicts e data p lossy w =
     (case init e p ''w'' default_cache_dir lossy ''/'' w of
        (Inl err, w1) \<Rightarrow> (Inl err, w1)
      | (Inr traj, w1) \<Rightarrow>
          (case add_steps e data (traj, w1) of
             (Some err, traj2, w2) \<Rightarrow> (Inl err, w2)
           | (None, traj2, w2) \<Rightarrow>
               (case close e True (traj2, w2) of
                  (Some err, traj3, w3) \<Rightarrow> (Inl err, w3)
                | (None, traj3, w3) \<Rightarrow> (Inr traj3, w3))))"

text \<open>
  \<^verbatim>\<open>Trajectory.from_dict_of_lists\<close> (lines 351-389). The leaves of the input are
  sequences; \<open>length (remdups list_lengths)\<close> is \<^verbatim>\<open>len(set(list_lengths))\<close>. The
  step \<open>i\<close> is the dict of the \<open>i\<close>-th entries, and \<^verbatim>\<open>v[i]\<close> raises on a sequence
  that is too short.
\<close>

fun step_at :: "(string \<times> 'a list) list \<Rightarrow> nat \<Rightarrow> error + (string \<times> 'a) list" where
  "step_at [] i = Inr []"
| "step_at ((k, v) # rest) i =
     (if i < length v then
        (case step_at rest i of Inl err \<Rightarrow> Inl err | Inr st \<Rightarrow> Inr ((k, v ! i) # st))
      else Inl IndexError)"

fun add_columns ::
  "env \<Rightarrow> (string \<times> val nested list) list \<Rightarrow> nat list \<Rightarrow> trajectory \<times> world
   \<Rightarrow> error option \<times> trajectory \<times> world" where
  "add_columns e flat [] s = (None, s)"
| "add_columns e flat (i # rest) s =
     (case step_at flat i of
        Inl err \<Rightarrow> (Some err, s)
      | Inr step \<Rightarrow>
          (case add_by_dict e (Dict step) None s of
             (Some err, s1) \<Rightarrow> (Some err, s1)
           | (None, s1) \<Rightarrow> add_columns e flat rest s1))"

definition from_dict_of_lists ::
  "env \<Rightarrow> (string \<times> val nested list nested) list \<Rightarrow> string \<Rightarrow> string \<Rightarrow> bool \<Rightarrow> world
   \<Rightarrow> (error + trajectory) \<times> world" where
  "from_dict_of_lists e data p sep lossy w =
     (case init e p ''w'' default_cache_dir lossy sep w of
        (Inl err, w1) \<Rightarrow> (Inl err, w1)
      | (Inr traj, w1) \<Rightarrow>
          (let flat = flatten_dict data (feature_name_separator traj);
               list_lengths = map (\<lambda>(k, v). length v) flat
           in
           if length (remdups list_lengths) \<noteq> 1
           then (Inl (ValueError ''All lists must have the same length''), w1)
           else
             (case add_columns e flat [0..<hd list_lengths] (traj, w1) of
                (Some err, traj2, w2) \<Rightarrow> (Inl err, w2)
              | (None, traj2, w2) \<Rightarrow>
                  (case close e True (traj2, w2) of
                     (Some err, traj3, w3) \<Rightarrow> (Inl err, w3)
                   | (None, traj3, w3) \<Rightarrow> (Inr traj3, w3)))))"

section \<open>Reading the container\<close>

text \<open>
  \<^verbatim>\<open>_get_length_of_stream\<close> (lines 416-424): the packets of one stream whose dts
  is not \<^verbatim>\<open>None\<close>.
\<close>

definition get_length_of_stream :: "container \<Rightarrow> nat \<Rightarrow> nat" where
  "get_length_of_stream c i = length (filter (\<lambda>p. dts p \<noteq> None) (demux c [i]))"

text \<open>
  The preallocation loop (lines 447-464): \<^verbatim>\<open>np.empty((length,) + shape)\<close> for
  every stream with a \<^verbatim>\<open>FEATURE_NAME\<close>, an object array for a string feature.
  The loop also records the type in \<^verbatim>\<open>self.feature_name_to_feature_type\<close>.
\<close>

fun preallocate ::
  "nat \<Rightarrow> stream list \<Rightarrow> trajectory \<Rightarrow> (string \<times> ndarray) list
   \<Rightarrow> (error + (string \<times> ndarray) list) \<times> trajectory" where
  "preallocate n [] self np_cache = (Inr np_cache, self)"
| "preallocate n (st # rest) self np_cache =
     (case feature_name_of st of
        None \<Rightarrow> preallocate n rest self np_cache
      | Some feature_name \<Rightarrow>
          (case from_str (map_of (metadata st) ''FEATURE_TYPE'') of
             Inl err \<Rightarrow> (Inl err, self)
           | Inr ftype \<Rightarrow>
               preallocate n rest
                 (self\<lparr>feature_name_to_feature_type :=
                         AList.update feature_name ftype (feature_name_to_feature_type self)\<rparr>)
                 (AList.update feature_name
                    \<lparr>np_dtype = (if dtype ftype = ''string'' then ''object'' else dtype ftype),
                     np_shape = n # shape ftype,
                     slots = replicate n None\<rparr>
                    np_cache)))"

text \<open>
  \<^verbatim>\<open>np_cache[feature_name][d_feature_length[feature_name]] = data\<close> and the
  increment of the cursor. An index past the end of the array raises.
\<close>

definition store ::
  "(string \<times> ndarray) list \<Rightarrow> (string \<times> nat) list \<Rightarrow> string \<Rightarrow> val
   \<Rightarrow> error + (string \<times> ndarray) list \<times> (string \<times> nat) list" where
  "store np_cache d feature_name data =
     (case map_of np_cache feature_name of
        None \<Rightarrow> Inl KeyError
      | Some arr \<Rightarrow>
          (case map_of d feature_name of
             None \<Rightarrow> Inl KeyError
           | Some i \<Rightarrow>
               (if i < length (slots arr)
                then Inr (AList.update feature_name (arr\<lparr>slots := (slots arr)[i := Some data]\<rparr>)
                            np_cache,
                          AList.update feature_name (Suc i) d)
                else Inl IndexError)))"

text \<open>
  \<^verbatim>\<open>frame.to_ndarray(format=fmt).reshape(shape)\<close>: the plane of the frame in
  that pixel format, as a uint8 array of the feature's shape; numpy's reshape raises
  when the sizes differ.
\<close>

definition to_ndarray_reshape :: "env \<Rightarrow> string \<Rightarrow> video_frame \<Rightarrow> nat list \<Rightarrow> error + val" where
  "to_ndarray_reshape e fmt frame shp =
     (let pix = (if format frame = fmt then plane frame else reformat e fmt frame) in
      if length pix = prod_list shp then Inr (Array ''uint8'' shp (map U8 pix))
      else Inl (ValueError ''cannot reshape array''))"

text \<open>\<^verbatim>\<open>packet.decode()\<close>: the frames of a video packet.\<close>

definition packet_decode :: "env \<Rightarrow> string \<Rightarrow> packet \<Rightarrow> error + video_frame list" where
  "packet_decode e codec p =
     (case payload p of
        Encoded f \<Rightarrow> Inr [codec_loss e codec f]
      | Empty \<Rightarrow> Inr []
      | Pickled v \<Rightarrow> Inl AVError)"

fun store_frames ::
  "env \<Rightarrow> feature_type \<Rightarrow> string \<Rightarrow> video_frame list \<Rightarrow> (string \<times> ndarray) list
   \<Rightarrow> (string \<times> nat) list \<Rightarrow> error + (string \<times> ndarray) list \<times> (string \<times> nat) list" where
  "store_frames e ftype feature_name [] np_cache d = Inr (np_cache, d)"
| "store_frames e ftype feature_name (frame # rest) np_cache d =
     (case to_ndarray_reshape e (if dtype ftype = ''float32'' then ''gray'' else ''rgb24'')
             frame (shape ftype) of
        Inl err \<Rightarrow> Inl err
      | Inr data \<Rightarrow>
          (case store np_cache d feature_name data of
             Inl err \<Rightarrow> Inl err
           | Inr (np_cache1, d1) \<Rightarrow> store_frames e ftype feature_name rest np_cache1 d1))"

text \<open>The decoding loop (lines 468-502).\<close>

fun decode_packets ::
  "env \<Rightarrow> container \<Rightarrow> packet list \<Rightarrow> (string \<times> ndarray) list \<Rightarrow> (string \<times> nat) list
   \<Rightarrow> error + (string \<times> ndarray) list \<times> (string \<times> nat) list" where
  "decode_packets e c [] np_cache d = Inr (np_cache, d)"
| "decode_packets e c (p # ps) np_cache d =
     (let st = streams c ! stream_index p in
      case feature_name_of st of
        None \<Rightarrow> decode_packets e c ps np_cache d
      | Some feature_name \<Rightarrow>
          (case from_str (map_of (metadata st) ''FEATURE_TYPE'') of
             Inl err \<Rightarrow> Inl err
           | Inr ftype \<Rightarrow>
               (if codec_name st = ''rawvideo'' then
                  (case payload p of
                     Empty \<Rightarrow> decode_packets e c ps np_cache d
                   | Encoded f \<Rightarrow> Inl UnpicklingError
                   | Pickled data \<Rightarrow>
                       (case store np_cache d feature_name data of
                          Inl err \<Rightarrow> Inl err
                        | Inr (np_cache1, d1) \<Rightarrow> decode_packets e c ps np_cache1 d1))
                else
                  (case packet_decode e (codec_name st) p of
                     Inl err \<Rightarrow> Inl err
                   | Inr frames \<Rightarrow>
                       (case store_frames e ftype feature_name frames np_cache d of
                          Inl err \<Rightarrow> Inl err
                        | Inr (np_cache1, d1) \<Rightarrow> decode_packets e c ps np_cache1 d1)))))"

text \<open>
  \<^verbatim>\<open>Trajectory._load_from_container\<close> (lines 398-507). \<^verbatim>\<open>streams[0]\<close> raises
  on a container without streams. The debug line after the loop reads
  \<^verbatim>\<open>d_feature_length[feature_name]\<close> with the name of the last packet's stream,
  which raises when that stream has none.
\<close>

definition load_from_container ::
  "env \<Rightarrow> trajectory \<times> world \<Rightarrow> (error + (string \<times> ndarray) list) \<times> trajectory" where
  "load_from_container e s =
     (case s of (self, w) \<Rightarrow>
      case files w (path self) of
        None \<Rightarrow> (Inl AVError, self)
      | Some c \<Rightarrow>
          (if streams c = [] then (Inl IndexError, self)
           else
             (let n = get_length_of_stream c 0 in
              case preallocate n (streams c) self [] of
                (Inl err, self1) \<Rightarrow> (Inl err, self1)
              | (Inr np_cache, self1) \<Rightarrow>
                  (let d_feature_length = map (\<lambda>(feature, arr). (feature, 0)) np_cache;
                       pkts = demux c [0..<length (streams c)]
                   in
                   case decode_packets e c pkts np_cache d_feature_length of
                     Inl err \<Rightarrow> (Inl err, self1)
                   | Inr (np_cache1, d1) \<Rightarrow>
                       (case feature_name_of (streams c ! stream_index (last pkts)) of
                          None \<Rightarrow> (Inl KeyError, self1)
                        | Some feature_name \<Rightarrow> (Inr np_cache1, self1))))))"

section \<open>The decoded cache\<close>

text \<open>
  The cache file library (h5py): \<^verbatim>\<open>create_dataset(name, data)\<close> takes the name
  as a path, its parts separated by \<^verbatim>\<open>/\<close>, creates the groups on the way, and
  fails when a part is a dataset already or the last part exists.
\<close>

fun split_on :: "'a \<Rightarrow> 'a list \<Rightarrow> 'a list list" where
  "split_on c [] = [[]]"
| "split_on c (x # xs) =
     (if x = c then [] # split_on c xs
      else (case split_on c xs of
              [] \<Rightarrow> [[x]]
            | y # ys \<Rightarrow> (x # y) # ys))"

definition h5_path :: "string \<Rightarrow> string list" where
  "h5_path name = filter (\<lambda>part. part \<noteq> []) (split_on CHR ''/'' name)"

fun h5_create ::
  "string list \<Rightarrow> ndarray \<Rightarrow> (string \<times> h5node) list \<Rightarrow> (string \<times> h5node) list option" where
  "h5_create [] a g = None"
| "h5_create [k] a g =
     (if map_of g k = None then Some (g @ [(k, Dataset a)]) else None)"
| "h5_create (k # k' # ks) a g =
     (case map_of g k of
        None \<Rightarrow>
          (case h5_create (k' # ks) a [] of
             None \<Rightarrow> None
           | Some sub \<Rightarrow> Some (g @ [(k, Group sub)]))
      | Some (Dataset b) \<Rightarrow> None
      | Some (Group sub) \<Rightarrow>
          (case h5_create (k' # ks) a sub of
             None \<Rightarrow> None
           | Some sub1 \<Rightarrow> Some (AList.update k (Group sub1) g)))"

definition create_dataset ::
  "string \<Rightarrow> ndarray \<Rightarrow> (string \<times> h5node) list \<Rightarrow> (string \<times> h5node) list option" where
  "create_dataset name a g = h5_create (h5_path name) a g"

text \<open>
  \<^verbatim>\<open>data[i] = str(data[i])\<close> on every entry of an object array (lines 525-530);
  an entry never assigned is \<^verbatim>\<open>None\<close>, whose \<^verbatim>\<open>str\<close> is \<^verbatim>\<open>'None'\<close>.
\<close>

definition coerce_to_str :: "env \<Rightarrow> ndarray \<Rightarrow> ndarray" where
  "coerce_to_str e a =
     a\<lparr>slots := map (\<lambda>x. case x of
                             None \<Rightarrow> Some (Str ''None'')
                           | Some (Str t) \<Rightarrow> Some (Str t)
                           | Some v \<Rightarrow> Some (Str (py_str e v)))
                      (slots a)\<rparr>"

text \<open>
  The loop of \<^verbatim>\<open>_write_to_cache\<close> (lines 523-536). The arrays of
  \<^verbatim>\<open>np_cache\<close> are changed in place, so the dict comes back (\<open>done\<close> holds the
  entries already visited); a dataset of an object array that cannot be created is
  logged and skipped, any other failure raises.
\<close>

fun write_datasets ::
  "env \<Rightarrow> (string \<times> ndarray) list \<Rightarrow> (string \<times> ndarray) list
   \<Rightarrow> (string \<times> h5node) list
   \<Rightarrow> error option \<times> (string \<times> ndarray) list \<times> (string \<times> h5node) list" where
  "write_datasets e done [] g = (None, done, g)"
| "write_datasets e done ((feature_name, data) # rest) g =
     (if np_dtype data = ''object'' then
        (let data1 = coerce_to_str e data in
         case (if h5_stores_objects e then create_dataset feature_name data1 g else None) of
           None \<Rightarrow> write_datasets e (done @ [(feature_name, data1)]) rest g
         | Some g1 \<Rightarrow> write_datasets e (done @ [(feature_name, data1)]) rest g1)
      else
        (case create_dataset feature_name data g of
           None \<Rightarrow> (Some H5Error, done @ (feature_name, data) # rest, g)
         | Some g1 \<Rightarrow> write_datasets e (done @ [(feature_name, data)]) rest g1))"

text \<open>
  \<^verbatim>\<open>Trajectory._write_to_cache\<close> (lines 517-537). \<^verbatim>\<open>h5py.File(name, "w")\<close>
  creates the file, empty; what was written before a failure stays in it.
\<close>

definition write_to_cache ::
  "env \<Rightarrow> (string \<times> ndarray) list \<Rightarrow> trajectory \<times> world
   \<Rightarrow> error option \<times> (string \<times> ndarray) list \<times> world" where
  "write_to_cache e np_cache s =
     (case s of (self, w) \<Rightarrow>
      case write_datasets e [] np_cache [] of
        (err, np_cache1, g) \<Rightarrow>
          (err, np_cache1, w\<lparr>caches := (caches w)(cache_file_name self \<mapsto> H5 g)\<rparr>))"

text \<open>
  Modelled from the spec: \<^verbatim>\<open>robodm.utils.recursively_read_hdf5_group\<close> is not
  among the sources. Section 4.7: \<^emph>\<open>traverse the hierarchy, materialize each dataset
  as a dense array (or a nested map when the key path is hierarchical)\<close>.
\<close>

fun recursively_read_hdf5_group :: "h5node \<Rightarrow> ndarray nested" where
  "recursively_read_hdf5_group (Dataset a) = Leaf a"
| "recursively_read_hdf5_group (Group g) =
     Dict (map (\<lambda>kn. (fst kn, recursively_read_hdf5_group (snd kn))) g)"

text \<open>
  \<^verbatim>\<open>with h5py.File(self.cache_file_name, "r") as h5_cache:
  recursively_read_hdf5_group(h5_cache)\<close>: fails on a missing or unreadable file.
\<close>

definition read_cache :: "trajectory \<times> world \<Rightarrow> error + (string \<times> ndarray nested) list" where
  "read_cache s =
     (case s of (self, w) \<Rightarrow>
      case caches w (cache_file_name self) of
        None \<Rightarrow> Inl H5Error
      | Some Unreadable \<Rightarrow> Inl H5Error
      | Some (H5 g) \<Rightarrow> Inr (map (\<lambda>kn. (fst kn, recursively_read_hdf5_group (snd kn))) g))"

text \<open>A dict of arrays as a (flat) nested dict.\<close>

definition as_dict :: "(string \<times> ndarray) list \<Rightarrow> (string \<times> ndarray nested) list" where
  "as_dict np_cache = map (\<lambda>ka. (fst ka, Leaf (snd ka))) np_cache"

text \<open>
  \<^verbatim>\<open>_convert_h5_cache_to_tensor\<close> (lines 203-214): two levels of the cache, a
  group below the first level is not a tensor.
\<close>

fun tensor_of_node :: "h5node \<Rightarrow> error + ndarray nested" where
  "tensor_of_node (Dataset a) = Inr (Leaf a)"
| "tensor_of_node (Group g) = Inl TypeError"

fun tensors_of_group :: "(string \<times> h5node) list \<Rightarrow> error + (string \<times> ndarray nested) list" where
  "tensors_of_group [] = Inr []"
| "tensors_of_group ((k, n) # rest) =
     (case tensor_of_node n of
        Inl err \<Rightarrow> Inl err
      | Inr t \<Rightarrow> (case tensors_of_group rest of
                   Inl err \<Rightarrow> Inl err
                 | Inr ts \<Rightarrow> Inr ((k, t) # ts)))"

fun convert_h5_cache_to_tensor ::
  "(string \<times> h5node) list \<Rightarrow> error + (string \<times> ndarray nested) list" where
  "convert_h5_cache_to_tensor [] = Inr []"
| "convert_h5_cache_to_tensor ((key, Dataset a) # rest) =
     (case convert_h5_cache_to_tensor rest of
        Inl err \<Rightarrow> Inl err
      | Inr out \<Rightarrow> Inr ((key, Leaf a) # out))"
| "convert_h5_cache_to_tensor ((key, Group g) # rest) =
     (case tensors_of_group g of
        Inl err \<Rightarrow> Inl err
      | Inr sub \<Rightarrow>
          (case convert_h5_cache_to_tensor rest of
             Inl err \<Rightarrow> Inl err
           | Inr out \<Rightarrow> Inr (if sub = [] then out else (key, Dict sub) # out)))"

datatype load_result =
    Numpy "(string \<times> ndarray nested) list"
  | Hdf5 h5file
  | CacheName string
  | ContainerPath string
  | Tensor "(string \<times> ndarray nested) list"

text \<open>
  The second half of \<^verbatim>\<open>Trajectory.load\<close> (lines 186-221), by return type.
  \<open>np_cache\<close> is \<^verbatim>\<open>None\<close> when the first half did not read the container.
\<close>

definition load_return ::
  "env \<Rightarrow> string \<Rightarrow> (string \<times> ndarray) list option \<Rightarrow> trajectory \<times> world
   \<Rightarrow> (error + load_result) \<times> trajectory \<times> world" where
  "load_return e return_type np_cache s =
     (case s of (self, w) \<Rightarrow>
      if return_type = ''hdf5'' then
        (case caches w (cache_file_name self) of
           None \<Rightarrow> (Inl H5Error, self, w)
         | Some Unreadable \<Rightarrow> (Inl H5Error, self, w)
         | Some (H5 g) \<Rightarrow> (Inr (Hdf5 (H5 g)), self, w))
      else if return_type = ''numpy'' then
        (if np_cache = None \<or> np_cache = Some [] then
           (case read_cache (self, w) of
              Inr r \<Rightarrow> (Inr (Numpy r), self, w)
            | Inl err \<Rightarrow>
                (case load_from_container e (self, w) of
                   (Inl err1, self1) \<Rightarrow> (Inl err1, self1, w)
                 | (Inr np_cache1, self1) \<Rightarrow> (Inr (Numpy (as_dict np_cache1)), self1, w)))
         else (Inr (Numpy (as_dict (the np_cache))), self, w))
      else if return_type = ''cache_name'' then (Inr (CacheName (cache_file_name self)), self, w)
      else if return_type = ''container'' then (Inr (ContainerPath (path self)), self, w)
      else if return_type = ''tensor'' then
        (case caches w (cache_file_name self) of
           None \<Rightarrow> (Inl H5Error, self, w)
         | Some Unreadable \<Rightarrow> (Inl H5Error, self, w)
         | Some (H5 g) \<Rightarrow>
             (case convert_h5_cache_to_tensor g of
                Inl err \<Rightarrow> (Inl err, self, w)
              | Inr out \<Rightarrow> (Inr (Tensor out), self, w)))
      else (Inl (ValueError ''Invalid return_type''), self, w))"

text \<open>
  \<^verbatim>\<open>Trajectory.load\<close> (lines 157-221). The cache is looked for by
  \<^verbatim>\<open>os.path.exists\<close>; when writing it fails, the arrays read are returned at
  once, whatever the return type.
\<close>

definition load ::
  "env \<Rightarrow> bool \<Rightarrow> string \<Rightarrow> trajectory \<times> world
   \<Rightarrow> (error + load_result) \<times> trajectory \<times> world" where
  "load e save_to_cache return_type s =
     (case s of (self, w) \<Rightarrow>
      if caches w (cache_file_name self) = None then
        (case load_from_container e (self, w) of
           (Inl err, self1) \<Rightarrow> (Inl err, self1, w)
         | (Inr np_cache, self1) \<Rightarrow>
             (if save_to_cache then
                (case write_to_cache e np_cache (self1, w) of
                   (Some err, np_cache1, w1) \<Rightarrow> (Inr (Numpy (as_dict np_cache1)), self1, w1)
                 | (None, np_cache1, w1) \<Rightarrow>
                     load_return e return_type (Some np_cache1) (self1, w1))
              else load_return e return_type (Some np_cache) (self1, w)))
      else load_return e return_type None (self, w))"

section \<open>Concrete inputs\<close>

text \<open>
  An environment, an empty world and a few values, for the theorems that evaluate the
  model: a clock that advances 10 ms per reading, lossless codecs without delay.
\<close>

definition example_env :: env where
  "example_env =
     \<lparr>clock = (\<lambda>n. int n * 10), hash_hex = (\<lambda>p. ''0''), scale255_uint8 = (\<lambda>b. 7),
      float_to_uint8 = (\<lambda>x. 0), encoder_delay = (\<lambda>c. 0), codec_loss = (\<lambda>c f. f),
      reformat = (\<lambda>fmt f. plane f), py_str = (\<lambda>v. ''?''), h5_stores_objects = True\<rparr>"

definition new_world :: world where
  "new_world = \<lparr>files = Map.empty, caches = Map.empty, ticks = 0\<rparr>"

definition example_writer :: "bool \<Rightarrow> trajectory" where
  "example_writer lossy =
     \<lparr>path = ''/tmp/t.vla'', feature_name_separator = ''/'',
      cache_file_name = ''/tmp/robodm/cache/0.cache'',
      feature_name_to_stream = [], feature_name_to_feature_type = [],
      mode = ''w'', is_closed = False, lossy_compression = lossy,
      container_file = Some ''/tmp/t.vla''\<rparr>"

definition float_scalar :: "nat \<Rightarrow> val" where
  "float_scalar n = Scalar ''float64'' (F64 (of_nat n))"

definition example_image :: val where
  "example_image = Array ''uint8'' [100, 100, 3] (replicate 30000 (U8 0))"

definition fresh_world :: world where
  "fresh_world = put_file ''/tmp/t.vla'' empty_container new_world"

definition int_scalar :: "int \<Rightarrow> val nested" where
  "int_scalar n = Leaf (Scalar ''int64'' (I64 n))"

definition unequal_columns :: "(string \<times> val nested list nested) list" where
  "unequal_columns =
     [(''x'', Leaf [int_scalar 1, int_scalar 2, int_scalar 3]),
      (''y'', Leaf [int_scalar 4, int_scalar 5])]"

definition example_video_container :: container where
  "example_video_container =
     \<lparr>streams =
        [\<lparr>codec_name = ''ffv1'', width = Some 2, height = Some 1, options = [],
          metadata = [(''FEATURE_NAME'', Text ''depth''),
                      (''FEATURE_TYPE'', TypeStr \<lparr>dtype = ''float32'', shape = [1, 2]\<rparr>)],
          time_base = Some (1, 1000), pending = []\<rparr>],
      packets = [], container_closed = False\<rparr>"

section \<open>Invariants of the writer\<close>

text \<open>
  The stream that \<^verbatim>\<open>_add_stream_to_container\<close> leaves in the container when it
  does not raise.
\<close>

definition created_stream :: "string \<Rightarrow> string \<Rightarrow> feature_type \<Rightarrow> stream" where
  "created_stream feature_name encoding ftype =
     \<lparr>codec_name = encoding,
      width = (if encoding = ''ffv1'' \<or> encoding = ''libaom-av1''
               then Some (shape ftype ! 1) else None),
      height = (if encoding = ''ffv1'' \<or> encoding = ''libaom-av1''
                then Some (shape ftype ! 0) else None),
      options = (if encoding = ''libaom-av1'' then [(''g'', ''2''), (''crf'', ''23'')] else []),
      metadata = [(''FEATURE_NAME'', Text feature_name), (''FEATURE_TYPE'', TypeStr ftype)],
      time_base = Some (1, 1000),
      pending = []\<rparr>"

text \<open>
  The counterpart that the stream loops of the two rewrites build for a source
  stream, and the index map they leave, when nothing raises.
\<close>

definition counterpart ::
  "(stream \<Rightarrow> feature_type \<Rightarrow> error + string) \<Rightarrow> trajectory \<Rightarrow> stream \<Rightarrow> stream" where
  "counterpart pick self st =
     (case feature_name_of st of
        None \<Rightarrow> st
      | Some n \<Rightarrow>
          (case map_of (feature_name_to_feature_type self) n of
             None \<Rightarrow> st
           | Some ftype \<Rightarrow>
               (case pick st ftype of
                  Inl err \<Rightarrow> st
                | Inr enc \<Rightarrow> copy_metadata st (created_stream n enc ftype))))"

fun remap :: "(nat \<times> stream) list \<Rightarrow> nat \<Rightarrow> (nat \<times> nat) list \<Rightarrow> (nat \<times> nat) list" where
  "remap [] k d = d"
| "remap ((idx, st) # rest) k d = remap rest (Suc k) (AList.update idx k d)"

text \<open>
  What holds of the open container while the trajectory is written with
  \<^verbatim>\<open>add\<close> and \<^verbatim>\<open>add_by_dict\<close>: every stream is a \<^verbatim>\<open>rawvideo\<close> stream
  with an idle encoder and the name of a feature whose type is recorded, every packet
  is a pickled value on one of the streams with \<open>pts = dts\<close>, and every stream the
  trajectory remembers is in the container.
\<close>

definition raw_stream :: "trajectory \<Rightarrow> stream \<Rightarrow> bool" where
  "raw_stream self st =
     (codec_name st = ''rawvideo'' \<and> pending st = [] \<and> distinct (map fst (metadata st))
      \<and> (case feature_name_of st of
            None \<Rightarrow> False
          | Some n \<Rightarrow> map_of (feature_name_to_feature_type self) n \<noteq> None))"

definition raw_packet :: "nat \<Rightarrow> packet \<Rightarrow> bool" where
  "raw_packet n p =
     (stream_index p < n \<and> pts p \<noteq> None \<and> dts p = pts p
      \<and> (case payload p of Pickled v \<Rightarrow> True | Encoded f \<Rightarrow> False | Empty \<Rightarrow> False))"

definition raw_container :: "trajectory \<Rightarrow> container \<Rightarrow> bool" where
  "raw_container self c =
     (list_all (raw_stream self) (streams c)
      \<and> list_all (raw_packet (length (streams c))) (packets c)
      \<and> list_all (\<lambda>(n, i). i < length (streams c)) (feature_name_to_stream self))"

definition writer_inv :: "trajectory \<times> world \<Rightarrow> bool" where
  "writer_inv s =
     (case s of (self, w) \<Rightarrow>
      \<not> is_closed self \<and> container_file self = Some (path self)
      \<and> (case files w (path self) of
            None \<Rightarrow> False
          | Some c \<Rightarrow> raw_container self c))"

text \<open>
  Timestamps of a packet list in mux order: \<open>timed b ps\<close> says that every packet has
  \<open>pts = dts\<close>, set, that the pts values do not decrease along the list, and that
  none exceeds \<open>b\<close>.
\<close>

definition stamped :: "int \<Rightarrow> packet \<Rightarrow> bool" where
  "stamped t p = (pts p = Some t \<and> dts p = Some t)"

definition pts_of :: "packet \<Rightarrow> int" where
  "pts_of p = (case pts p of Some t \<Rightarrow> t | None \<Rightarrow> 0)"

definition timed :: "int \<Rightarrow> packet list \<Rightarrow> bool" where
  "timed b ps =
     (sorted (map pts_of ps)
      \<and> list_all (\<lambda>p. pts p \<noteq> None \<and> dts p = pts p \<and> pts_of p \<le> b) ps)"

section \<open>Properties\<close>

text \<open>
  C2. For every FeatureType and lossy flag the selector returns a video codec if and
  only if the shape has at least two dimensions and both of the first two are at least
  100, \<^verbatim>\<open>libaom-av1\<close> (the AV1 encoder) when lossy and \<^verbatim>\<open>ffv1\<close> when not;
  otherwise it returns \<^verbatim>\<open>rawvideo\<close>. Shape (99, 100, 3) gives \<^verbatim>\<open>rawvideo\<close>,
  shape (100, 100, 3) gives \<^verbatim>\<open>ffv1\<close> or \<^verbatim>\<open>libaom-av1\<close>, and the dtype plays no
  part.
\<close>

theorem codec_selector_boundary:
  "(get_encoding_of_feature self v (Some t) \<noteq> Inr ''rawvideo''
      \<longleftrightarrow> (2 \<le> length (shape t) \<and> 100 \<le> shape t ! 0 \<and> 100 \<le> shape t ! 1))
   \<and> (get_encoding_of_feature self v (Some t) \<noteq> Inr ''rawvideo''
      \<longrightarrow> get_encoding_of_feature self v (Some t)
          = Inr (if lossy_compression self then ''libaom-av1'' else ''ffv1''))
   \<and> (shape t = [99, 100, 3]
      \<longrightarrow> get_encoding_of_feature self v (Some t) = Inr ''rawvideo'')
   \<and> (shape t = [100, 100, 3]
      \<longrightarrow> get_encoding_of_feature self v (Some t)
          = Inr (if lossy_compression self then ''libaom-av1'' else ''ffv1''))
   \<and> get_encoding_of_feature self v (Some (t\<lparr>dtype := d\<rparr>))
      = get_encoding_of_feature self v (Some t)"
  by (simp add: get_encoding_of_feature_def Let_def)

theorem codec_selector_boundary_witness:
  "get_encoding_of_feature (example_writer False) None
       (Some \<lparr>dtype = ''uint8'', shape = [100, 100, 3]\<rparr>) = Inr ''ffv1''
   \<and> get_encoding_of_feature (example_writer True) None
       (Some \<lparr>dtype = ''uint8'', shape = [100, 100, 3]\<rparr>) = Inr ''libaom-av1''
   \<and> get_encoding_of_feature (example_writer True) None
       (Some \<lparr>dtype = ''uint8'', shape = [99, 100, 3]\<rparr>) = Inr ''rawvideo''
   \<and> get_encoding_of_feature (example_writer True) None
       (Some \<lparr>dtype = ''float32'', shape = [480, 640]\<rparr>) = Inr ''libaom-av1''"
  using codec_selector_boundary [of "example_writer False" None
          "\<lparr>dtype = ''uint8'', shape = [100, 100, 3]\<rparr>" "''uint8''"]
  by (simp add: example_writer_def get_encoding_of_feature_def)

subsection \<open>Stream creation\<close>

lemma map_of_fold_update_keeps:
  "map_of md k \<noteq> None
   \<Longrightarrow> map_of (fold (\<lambda>(key, v) m. AList.update key v m) src md) k \<noteq> None"
  by (induction src arbitrary: md) (auto simp: update_conv)

lemma copy_metadata_keeps:
  "map_of (metadata st) k \<noteq> None \<Longrightarrow> map_of (metadata (copy_metadata src st)) k \<noteq> None"
  by (simp add: copy_metadata_def map_of_fold_update_keeps)

lemma copy_metadata_fields [simp]:
  "time_base (copy_metadata src st) = time_base st"
  "width (copy_metadata src st) = width st"
  "height (copy_metadata src st) = height st"
  "codec_name (copy_metadata src st) = codec_name st"
  "pending (copy_metadata src st) = pending st"
  by (simp_all add: copy_metadata_def)

lemma add_stream_to_container_Inr:
  assumes "add_stream_to_container c feature_name encoding ftype = (Inr i, c1)"
  shows "i = length (streams c)"
    and "c1 = c\<lparr>streams := streams c @ [streams c1 ! i]\<rparr>"
    and "codec_name (streams c1 ! i) = encoding"
    and "map_of (metadata (streams c1 ! i)) ''FEATURE_NAME'' = Some (Text feature_name)"
    and "map_of (metadata (streams c1 ! i)) ''FEATURE_TYPE'' = Some (TypeStr ftype)"
    and "time_base (streams c1 ! i) = Some (1, 1000)"
    and "pending (streams c1 ! i) = []"
    and "encoding = ''ffv1'' \<or> encoding = ''libaom-av1''
         \<Longrightarrow> width (streams c1 ! i) = Some (shape ftype ! 1)
             \<and> height (streams c1 ! i) = Some (shape ftype ! 0)
             \<and> 2 \<le> length (shape ftype)"
  using assms
  by (auto simp: add_stream_to_container_def Let_def update_conv split: if_splits)




subsection \<open>Frame codec\<close>

lemma first_channel_one [simp]: "first_channel (Suc 0) xs = xs"
  by (induction xs) simp_all




subsection \<open>Writing: library facts\<close>

lemma add_stream_to_container_eq:
  "add_stream_to_container c n enc ft =
     (if (enc = ''ffv1'' \<or> enc = ''libaom-av1'') \<and> length (shape ft) < 2
      then (Inl IndexError,
            c\<lparr>streams := streams c @ [\<lparr>codec_name = enc, width = None, height = None,
                 options = [], metadata = [], time_base = None, pending = []\<rparr>]\<rparr>)
      else (Inr (length (streams c)), c\<lparr>streams := streams c @ [created_stream n enc ft]\<rparr>))"
  by (simp add: add_stream_to_container_def created_stream_def Let_def)

lemma mux_fields [simp]:
  "streams (mux p c) = streams c"
  "packets (mux p c) = packets c @ [p]"
  "container_closed (mux p c) = container_closed c"
  by (simp_all add: mux_def)

lemma fold_mux_fields [simp]:
  "streams (fold mux ps c) = streams c"
  "packets (fold mux ps c) = packets c @ ps"
  "container_closed (fold mux ps c) = container_closed c"
  by (induction ps arbitrary: c) simp_all

lemma remux_packets_streams:
  "remux_packets d ps nc = (r, nc1) \<Longrightarrow> streams nc1 = streams nc"
  by (induction d ps nc rule: remux_packets.induct) (auto split: if_splits option.splits)

lemma put_file_fields [simp]:
  "files (put_file p c w) = (files w)(p \<mapsto> c)"
  "caches (put_file p c w) = caches w"
  "ticks (put_file p c w) = ticks w"
  "files (remove_file p w) = (files w)(p := None)"
  "caches (remove_file p w) = caches w"
  "ticks (remove_file p w) = ticks w"
  by (simp_all add: put_file_def remove_file_def)

lemma temp_path_neq [simp]: "p @ ''.temp'' \<noteq> p" "p \<noteq> p @ ''.temp''"
  by (induction p) auto

lemma on_new_stream_creates:
  assumes "on_new_stream e f enc ft (self, w) = (None, self1, w1)"
    and "map_of (feature_name_to_stream self) f = None"
  shows "\<exists>h c i. container_file self1 = Some h \<and> files w1 h = Some c
      \<and> map_of (feature_name_to_stream self1) f = Some i
      \<and> i < length (streams c) \<and> codec_name (streams c ! i) = enc"
proof (cases "feature_name_to_stream self = []")
  case True
  then show ?thesis
    using assms(1)
    by (auto simp: on_new_stream_def update_conv add_stream_to_container_eq created_stream_def
        split: option.splits prod.splits sum.splits if_splits)
next
  case False
  then show ?thesis
    using assms
    by (auto simp: on_new_stream_def Let_def update_conv add_stream_to_container_eq
        created_stream_def nth_append
        split: option.splits prod.splits sum.splits if_splits dest!: remux_packets_streams)
qed


lemma stream_encode_codecs:
  "stream_encode e i fr c = (ps, c1)
   \<Longrightarrow> map codec_name (streams c1) = map codec_name (streams c)
       \<and> packets c1 = packets c \<and> container_closed c1 = container_closed c"
  by (auto simp: stream_encode_def Let_def map_update list_update_same_conv
      split: if_splits option.splits)

lemma encode_frame_codecs:
  "encode_frame e v i ts c = (r, c1)
   \<Longrightarrow> map codec_name (streams c1) = map codec_name (streams c)
       \<and> packets c1 = packets c \<and> container_closed c1 = container_closed c"
  by (auto simp: encode_frame_def Let_def split: if_splits prod.splits
      dest: stream_encode_codecs)

lemma map_codec_nth:
  "map codec_name xs = map codec_name ys \<Longrightarrow> i < length ys
   \<Longrightarrow> i < length xs \<and> codec_name (xs ! i) = codec_name (ys ! i)"
  by (metis length_map nth_map)

lemma get_current_timestamp_files [simp]:
  "files (snd (get_current_timestamp e w)) = files w"
  "caches (snd (get_current_timestamp e w)) = caches w"
  "ticks (snd (get_current_timestamp e w)) = Suc (ticks w)"
  "fst (get_current_timestamp e w) = clock e (ticks w)"
  by (simp_all add: get_current_timestamp_def)

lemma add_creates_rawvideo:
  assumes "add e feature (Leaf v) timestamp (self, w) = (None, self1, w1)"
    and "map_of (feature_name_to_stream self) feature = None"
  shows "\<exists>h c i. container_file self1 = Some h \<and> files w1 h = Some c
      \<and> map_of (feature_name_to_stream self1) feature = Some i
      \<and> i < length (streams c) \<and> codec_name (streams c ! i) = ''rawvideo''"
proof -
  let ?self = "self\<lparr>feature_name_to_feature_type :=
      AList.update feature (from_data v) (feature_name_to_feature_type self)\<rparr>"
  obtain r2 self2 w2 where o: "on_new_stream e feature ''rawvideo'' (from_data v) (?self, w)
      = (r2, self2, w2)"
    by (cases "on_new_stream e feature ''rawvideo'' (from_data v) (?self, w)") auto
  have r2: "r2 = None"
    using assms o by (auto simp: add_def Let_def split: option.splits)
  from on_new_stream_creates [OF o [unfolded r2]] assms(2)
  obtain h c i where hc: "container_file self2 = Some h" "files w2 h = Some c"
      "map_of (feature_name_to_stream self2) feature = Some i"
      "i < length (streams c)" "codec_name (streams c ! i) = ''rawvideo''"
    by auto
  obtain ts w3 where t: "(case timestamp of None \<Rightarrow> get_current_timestamp e w2
                           | Some t \<Rightarrow> (t, w2)) = (ts, w3)"
    by (cases "(case timestamp of None \<Rightarrow> get_current_timestamp e w2 | Some t \<Rightarrow> (t, w2))") auto
  have f3: "files w3 = files w2"
    using t by (cases timestamp) (auto simp: get_current_timestamp_def)
  obtain r c1 where en: "encode_frame e v i ts c = (r, c1)"
    by (cases "encode_frame e v i ts c") auto
  from assms o r2 hc t f3 en obtain pkts where
    fin: "r = Inr pkts" "self1 = self2" "w1 = put_file h (fold mux pkts c1) w3"
    by (auto simp: add_def Let_def split: option.splits sum.splits)
  from encode_frame_codecs [OF en] hc(4)
  have "i < length (streams c1) \<and> codec_name (streams c1 ! i) = codec_name (streams c ! i)"
    by (auto dest: map_codec_nth)
  then show ?thesis
    using fin hc by auto
qed

lemma rebuild_streams_cong_self:
  "feature_name_to_feature_type self1 = feature_name_to_feature_type self
   \<Longrightarrow> rebuild_streams pick self1 xs nc d = rebuild_streams pick self xs nc d"
  by (induction xs arbitrary: nc d)
     (auto split: option.splits sum.splits prod.splits)

lemma close_False_lossy:
  "close e False (self\<lparr>lossy_compression := b\<rparr>, w)
     = (case close e False (self, w) of
          (r, self1, w1) \<Rightarrow> (r, self1\<lparr>lossy_compression := b\<rparr>, w1))"
  by (simp add: close_def Let_def split: option.splits prod.splits)



lemma on_new_stream_lossy:
  "on_new_stream e f enc ft (self\<lparr>lossy_compression := b\<rparr>, w)
     = (case on_new_stream e f enc ft (self, w) of
          (r, self1, w1) \<Rightarrow> (r, self1\<lparr>lossy_compression := b\<rparr>, w1))"
proof (cases "map_of (feature_name_to_stream self) f \<noteq> None")
  case True
  then show ?thesis by (simp add: on_new_stream_def)
next
  case nf: False
  show ?thesis
  proof (cases "feature_name_to_stream self = []")
    case True
    then show ?thesis
      by (simp add: on_new_stream_def split: option.splits prod.splits sum.splits)
  next
    case False
    obtain r self1 w1 where c: "close e False (self, w) = (r, self1, w1)"
      by (cases "close e False (self, w)") auto
    have c2: "close e False (self\<lparr>lossy_compression := b\<rparr>, w)
        = (r, self1\<lparr>lossy_compression := b\<rparr>, w1)"
      by (simp add: close_False_lossy c)
    show ?thesis
    proof (cases r)
      case (Some err)
      then show ?thesis using nf False c c2 by (simp add: on_new_stream_def)
    next
      case None
      have rb: "\<And>xs nc d. rebuild_streams same_codec (self1\<lparr>lossy_compression := b\<rparr>) xs nc d
          = rebuild_streams same_codec self1 xs nc d"
        by (rule rebuild_streams_cong_self) simp
      show ?thesis
        using nf False
        unfolding on_new_stream_def
        by (simp add: c c2 None rb Let_def split: option.splits prod.splits sum.splits)
    qed
  qed
qed


lemma add_lossy:
  "add e feature data timestamp (self\<lparr>lossy_compression := b\<rparr>, w)
     = (case add e feature data timestamp (self, w) of
          (r, self1, w1) \<Rightarrow> (r, self1\<lparr>lossy_compression := b\<rparr>, w1))"
proof (cases data)
  case (Dict d)
  then show ?thesis by (simp add: add_def)
next
  case (Leaf v)
  let ?s1 = "self\<lparr>feature_name_to_feature_type :=
      AList.update feature (from_data v) (feature_name_to_feature_type self)\<rparr>"
  have swap: "\<And>x. self\<lparr>lossy_compression := b, feature_name_to_feature_type := x\<rparr>
      = self\<lparr>feature_name_to_feature_type := x, lossy_compression := b\<rparr>"
    by simp
  show ?thesis
  proof (cases "map_of (feature_name_to_stream self) feature")
    case (Some y)
    then show ?thesis
      unfolding Leaf add_def
      by (simp add: Let_def split: option.splits prod.splits sum.splits)
  next
    case None
    obtain r self2 w2 where
      o: "on_new_stream e feature ''rawvideo'' (from_data v) (?s1, w) = (r, self2, w2)"
      by (cases "on_new_stream e feature ''rawvideo'' (from_data v) (?s1, w)") auto
    have o2: "on_new_stream e feature ''rawvideo'' (from_data v) (?s1\<lparr>lossy_compression := b\<rparr>, w)
        = (r, self2\<lparr>lossy_compression := b\<rparr>, w2)"
      by (simp only: on_new_stream_lossy o prod.case)
    show ?thesis
      unfolding Leaf add_def
      by (simp add: Let_def swap None o o2 split: option.splits prod.splits sum.splits)
  qed
qed

subsection \<open>Writing: the first encoding\<close>

lemma from_data_example_image [simp]:
  "from_data example_image = \<lparr>dtype = ''uint8'', shape = [100, 100, 3]\<rparr>"
  by (simp add: example_image_def)

lemmas writer_eval =
  add_def on_new_stream_def encode_frame_def add_stream_to_container_eq created_stream_def
  example_writer_def fresh_world_def new_world_def empty_container_def example_env_def
  get_current_timestamp_def stamp_def Let_def update_conv

text \<open>
  C3. When \<^verbatim>\<open>add\<close> meets a new feature and returns, the stream it has created
  for the feature has the codec \<^verbatim>\<open>rawvideo\<close>, whatever the value's FeatureType
  and the lossy flag; and \<^verbatim>\<open>add\<close> does not read the lossy flag at all: with the
  flag changed it returns the same result and leaves the same files. The codec
  selector is not called at write time.
\<close>

theorem add_new_feature_is_rawvideo:
  "(add e feature (Leaf v) timestamp (self, w) = (None, self1, w1)
      \<and> map_of (feature_name_to_stream self) feature = None
    \<longrightarrow> (\<exists>h c i. container_file self1 = Some h \<and> files w1 h = Some c
          \<and> map_of (feature_name_to_stream self1) feature = Some i
          \<and> i < length (streams c) \<and> codec_name (streams c ! i) = ''rawvideo''))
   \<and> add e feature data timestamp (self\<lparr>lossy_compression := b\<rparr>, w)
     = (case add e feature data timestamp (self, w) of
          (r, self2, w2) \<Rightarrow> (r, self2\<lparr>lossy_compression := b\<rparr>, w2))"
  using add_creates_rawvideo [where e = e and feature = feature and v = v
          and timestamp = timestamp and self = self and w = w and ?self1.0 = self1
          and ?w1.0 = w1]
        add_lossy [where e = e and feature = feature and data = data
          and timestamp = timestamp and self = self and b = b and w = w]
  by blast

theorem add_new_feature_is_rawvideo_witness:
  "fst (add example_env ''cam'' (Leaf example_image) None (example_writer True, fresh_world))
     = None
   \<and> map_of (feature_name_to_stream (example_writer True)) ''cam'' = None
   \<and> get_encoding_of_feature (example_writer True) None (Some (from_data example_image))
     = Inr ''libaom-av1''
   \<and> (\<exists>h c i.
         container_file (fst (snd (add example_env ''cam'' (Leaf example_image) None
                                      (example_writer True, fresh_world)))) = Some h
       \<and> files (snd (snd (add example_env ''cam'' (Leaf example_image) None
                              (example_writer True, fresh_world)))) h = Some c
       \<and> map_of (feature_name_to_stream
                   (fst (snd (add example_env ''cam'' (Leaf example_image) None
                                (example_writer True, fresh_world))))) ''cam'' = Some i
       \<and> i < length (streams c) \<and> codec_name (streams c ! i) = ''rawvideo'')"
proof -
  obtain r self1 w1 where run:
    "add example_env ''cam'' (Leaf example_image) None (example_writer True, fresh_world)
       = (r, self1, w1)"
    by (cases "add example_env ''cam'' (Leaf example_image) None
                 (example_writer True, fresh_world)") auto
  have ok: "fst (add example_env ''cam'' (Leaf example_image) None
                   (example_writer True, fresh_world)) = None"
    by (simp add: writer_eval)
  then have r: "r = None" using run by simp
  have new: "map_of (feature_name_to_stream (example_writer True)) ''cam'' = None"
    by (simp add: example_writer_def)
  have sel: "get_encoding_of_feature (example_writer True) None
               (Some (from_data example_image)) = Inr ''libaom-av1''"
    by (simp add: get_encoding_of_feature_def example_writer_def)
  from add_new_feature_is_rawvideo [where e = example_env and feature = "''cam''"
         and v = example_image and timestamp = None and self = "example_writer True"
         and w = fresh_world and ?self1.0 = self1 and ?w1.0 = w1] run r new
  have "\<exists>h c i. container_file self1 = Some h \<and> files w1 h = Some c
          \<and> map_of (feature_name_to_stream self1) ''cam'' = Some i
          \<and> i < length (streams c) \<and> codec_name (streams c ! i) = ''rawvideo''"
    by blast
  then show ?thesis
    using ok new sel unfolding run fst_conv snd_conv by blast
qed

subsection \<open>Bulk constructor: the length check\<close>

lemma flatten_unequal_columns [simp]:
  "flatten_dict unequal_columns ''/''
     = [(''x'', [int_scalar 1, int_scalar 2, int_scalar 3]), (''y'', [int_scalar 4, int_scalar 5])]"
  by (simp add: flatten_dict_def dict_of_def unequal_columns_def)



subsection \<open>The writer's invariant\<close>

lemma stream_pending_id [simp]: "pending st = [] \<Longrightarrow> st\<lparr>pending := []\<rparr> = st"
  by (cases st) simp

lemma container_streams_id [simp]: "c\<lparr>streams := streams c\<rparr> = c"
  by (cases c) simp

lemma stream_encode_idle:
  "i < length (streams c) \<Longrightarrow> pending (streams c ! i) = []
   \<Longrightarrow> stream_encode e i None c = ([], c)"
  by (simp add: stream_encode_def Let_def list_update_same_conv)

lemma flush_streams_idle:
  "\<forall>i \<in> set idxs. i < length (streams c) \<and> pending (streams c ! i) = []
   \<Longrightarrow> flush_streams e ts idxs c = c"
  by (induction idxs arbitrary: c) (simp_all add: stream_encode_idle)

lemma flush_streams_all_idle:
  "list_all (\<lambda>st. pending st = []) (streams c)
   \<Longrightarrow> flush_streams e ts [0..<length (streams c)] c = c"
  by (rule flush_streams_idle) (simp add: list_all_length)

lemma map_of_fold_update:
  "distinct (map fst src)
   \<Longrightarrow> map_of (fold (\<lambda>(key, v) m. AList.update key v m) src md) k
       = (case map_of src k of Some v \<Rightarrow> Some v | None \<Rightarrow> map_of md k)"
proof (induction src arbitrary: md)
  case Nil
  then show ?case by simp
next
  case (Cons a src)
  obtain k1 v1 where a: "a = (k1, v1)" by (cases a)
  from Cons.prems a have d: "distinct (map fst src)" and n: "map_of src k1 = None"
    by (auto simp: map_of_eq_None_iff)
  show ?case
    using Cons.IH [OF d, of "AList.update k1 v1 md"] n a
    by (auto simp: update_conv split: option.splits)
qed

lemma distinct_fold_update:
  "distinct (map fst md)
   \<Longrightarrow> distinct (map fst (fold (\<lambda>(key, v) m. AList.update key v m) src md))"
  by (induction src arbitrary: md) (auto simp: distinct_update)

lemma feature_name_of_Some:
  "feature_name_of st = Some n \<longleftrightarrow> map_of (metadata st) ''FEATURE_NAME'' = Some (Text n)"
  by (simp add: feature_name_of_def split: option.splits meta.splits)

lemma feature_name_of_copy:
  assumes "distinct (map fst (metadata st))" and "feature_name_of st = Some n"
  shows "feature_name_of (copy_metadata st (created_stream m enc ft)) = Some n"
proof -
  from assms(2) have "map_of (metadata st) ''FEATURE_NAME'' = Some (Text n)"
    by (simp only: feature_name_of_Some)
  then show ?thesis
    unfolding feature_name_of_Some copy_metadata_def
    by (simp add: map_of_fold_update [OF assms(1)])
qed

lemma distinct_copy_created:
  "distinct (map fst (metadata (copy_metadata st (created_stream n enc ft))))"
  by (simp add: copy_metadata_def distinct_fold_update created_stream_def)

lemma rebuild_streams_eq:
  assumes "\<forall>(idx, st) \<in> set xs. \<exists>n ft enc. feature_name_of st = Some n
      \<and> map_of (feature_name_to_feature_type self) n = Some ft \<and> pick st ft = Inr enc
      \<and> \<not> ((enc = ''ffv1'' \<or> enc = ''libaom-av1'') \<and> length (shape ft) < 2)"
  shows "rebuild_streams pick self xs nc d
      = (None, nc\<lparr>streams := streams nc @ map (\<lambda>x. counterpart pick self (snd x)) xs\<rparr>,
         remap xs (length (streams nc)) d)"
  using assms
proof (induction xs arbitrary: nc d)
  case Nil
  then show ?case by simp
next
  case (Cons x xs)
  obtain idx st where x: "x = (idx, st)" by (cases x)
  from Cons.prems x obtain n ft enc where
    h: "feature_name_of st = Some n" "map_of (feature_name_to_feature_type self) n = Some ft"
      "pick st ft = Inr enc"
      "\<not> ((enc = ''ffv1'' \<or> enc = ''libaom-av1'') \<and> length (shape ft) < 2)"
    by auto
  from Cons.prems have rest: "\<forall>(idx, st) \<in> set xs. \<exists>n ft enc. feature_name_of st = Some n
      \<and> map_of (feature_name_to_feature_type self) n = Some ft \<and> pick st ft = Inr enc
      \<and> \<not> ((enc = ''ffv1'' \<or> enc = ''libaom-av1'') \<and> length (shape ft) < 2)"
    by simp
  show ?case
    unfolding x
    using h
    by (simp add: add_stream_to_container_eq Cons.IH [OF rest] counterpart_def)
qed


lemma map_of_remap:
  "map_of (remap (zip [k..<k + length ss] ss) k d) i
     = (if k \<le> i \<and> i < k + length ss then Some i else map_of d i)"
proof (induction ss arbitrary: k d)
  case Nil
  then show ?case by auto
next
  case (Cons a ss)
  have "[k..<k + Suc (length ss)] = k # [Suc k..<k + Suc (length ss)]"
    by (rule upt_conv_Cons) simp
  then have "[k..<k + length (a # ss)] = k # [Suc k..<Suc k + length ss]"
    by simp
  then show ?case
    using Cons.IH [of "Suc k" "AList.update k k d"]
    by (auto simp: update_conv)
qed

lemma map_of_remap_enumerate:
  "map_of (remap (enumerate_streams c) 0 []) i
     = (if i < length (streams c) then Some i else None)"
  using map_of_remap [of 0 "streams c" "[]" i] by (simp add: enumerate_streams_def)

lemma packet_index_id [simp]: "p\<lparr>stream_index := stream_index p\<rparr> = p"
  by (cases p) simp

lemma remux_packets_id:
  "\<forall>p \<in> set ps. is_packet_valid p \<longrightarrow> map_of d (stream_index p) = Some (stream_index p)
   \<Longrightarrow> remux_packets d ps nc = (None, nc\<lparr>packets := packets nc @ filter is_packet_valid ps\<rparr>)"
proof (induction ps arbitrary: nc)
  case Nil
  then show ?case by simp
next
  case (Cons p ps)
  then show ?case by (simp add: mux_def)
qed

lemma filter_valid_demux:
  assumes "list_all (raw_packet n) (packets c)"
  shows "filter is_packet_valid (demux c [0..<n]) = packets c"
proof -
  have 1: "filter is_packet_valid (map flush_packet [0..<n]) = []"
    by (simp add: filter_empty_conv is_packet_valid_def flush_packet_def)
  have 2: "filter (\<lambda>p. stream_index p < n) (packets c) = packets c"
    by (rule filter_True) (use assms in \<open>auto simp: list_all_iff raw_packet_def\<close>)
  have 3: "filter is_packet_valid (packets c) = packets c"
    by (rule filter_True)
       (use assms in \<open>auto simp: list_all_iff raw_packet_def is_packet_valid_def\<close>)
  have "demux c [0..<n] = packets c @ map flush_packet [0..<n]"
    by (simp add: demux_def 2)
  then show ?thesis by (simp add: 1 3)
qed

lemma demux_indices:
  "p \<in> set (demux c [0..<n]) \<Longrightarrow> stream_index p < n"
  by (auto simp: demux_def flush_packet_def)

lemma raw_container_idle:
  "raw_container self c \<Longrightarrow> list_all (\<lambda>st. pending st = []) (streams c)"
  by (simp add: raw_container_def raw_stream_def list_all_iff)

lemma close_False_writer:
  assumes "writer_inv (self, w)" and "files w (path self) = Some c"
  shows "close e False (self, w)
      = (None, self\<lparr>container_file := None, is_closed := True\<rparr>,
         put_file (path self) (c\<lparr>container_closed := True\<rparr>) (w\<lparr>ticks := Suc (ticks w)\<rparr>))"
proof -
  from assms have i: "\<not> is_closed self" "container_file self = Some (path self)"
      "raw_container self c"
    by (simp_all add: writer_inv_def)
  have f: "flush_streams e (Some (clock e (ticks w))) [0..<length (streams c)] c = c"
    by (rule flush_streams_all_idle) (rule raw_container_idle [OF i(3)])
  show ?thesis
    using i(1,2) assms(2)
    by (simp add: close_def get_current_timestamp_def f put_file_def)
qed


lemma raw_stream_cong:
  "feature_name_to_feature_type self1 = feature_name_to_feature_type self
   \<Longrightarrow> raw_stream self1 st = raw_stream self st"
  by (simp add: raw_stream_def cong: option.case_cong)

lemma created_stream_fields [simp]:
  "codec_name (created_stream n enc ft) = enc"
  "pending (created_stream n enc ft) = []"
  "time_base (created_stream n enc ft) = Some (1, 1000)"
  "metadata (created_stream n enc ft) = [(''FEATURE_NAME'', Text n), (''FEATURE_TYPE'', TypeStr ft)]"
  by (simp_all add: created_stream_def)

lemma counterpart_raw:
  assumes "raw_stream self st"
  shows "raw_stream self (counterpart same_codec self st)"
proof -
  from assms obtain n ft where
    h: "feature_name_of st = Some n" "map_of (feature_name_to_feature_type self) n = Some ft"
      "codec_name st = ''rawvideo''" "distinct (map fst (metadata st))"
    by (auto simp: raw_stream_def split: option.splits)
  have c: "counterpart same_codec self st = copy_metadata st (created_stream n ''rawvideo'' ft)"
    using h by (simp add: counterpart_def same_codec_def)
  show ?thesis
    unfolding c raw_stream_def
    using h feature_name_of_copy [OF h(4) h(1), of n "''rawvideo''" ft]
    by (simp add: distinct_copy_created)
qed

lemma raw_stream_created:
  "map_of (feature_name_to_feature_type self) f \<noteq> None
   \<Longrightarrow> raw_stream self (created_stream f ''rawvideo'' ft)"
  by (simp add: raw_stream_def feature_name_of_def)

lemma map_snd_enumerate:
  "map (\<lambda>x. f (snd x)) (zip [0..<length xs] xs) = map f xs"
  by (rule nth_equalityI) simp_all

lemma rebuild_same_codec_raw:
  assumes "list_all (raw_stream self) (streams c)"
  shows "rebuild_streams same_codec self (enumerate_streams c) empty_container []
      = (None, \<lparr>streams = map (counterpart same_codec self) (streams c), packets = [],
                container_closed = False\<rparr>,
         remap (enumerate_streams c) 0 [])"
proof -
  have "\<forall>(idx, st) \<in> set (enumerate_streams c). \<exists>n ft enc. feature_name_of st = Some n
      \<and> map_of (feature_name_to_feature_type self) n = Some ft \<and> same_codec st ft = Inr enc
      \<and> \<not> ((enc = ''ffv1'' \<or> enc = ''libaom-av1'') \<and> length (shape ft) < 2)"
    using assms
    by (auto simp: enumerate_streams_def list_all_iff raw_stream_def same_codec_def
        split: option.splits dest!: set_zip_rightD)
  from rebuild_streams_eq [OF this, of empty_container "[]"]
  show ?thesis
    by (simp add: empty_container_def enumerate_streams_def map_snd_enumerate)
qed

lemma on_new_stream_rewrite:
  assumes inv: "writer_inv (self, w)" and c: "files w (path self) = Some c"
    and ne: "feature_name_to_stream self \<noteq> []"
    and new: "map_of (feature_name_to_stream self) f = None"
  shows "\<exists>w1. on_new_stream e f ''rawvideo'' ft (self, w)
        = (None,
           self\<lparr>container_file := Some (path self),
                feature_name_to_stream :=
                  AList.update f (length (streams c)) (feature_name_to_stream self),
                is_closed := False\<rparr>,
           w1)
      \<and> files w1 = (files w)
          (path self \<mapsto>
             \<lparr>streams = map (counterpart same_codec self) (streams c)
                          @ [created_stream f ''rawvideo'' ft],
              packets = packets c, container_closed = False\<rparr>,
           path self @ ''.temp'' := None)
      \<and> caches w1 = caches w \<and> ticks w1 = Suc (ticks w)"
proof -
  let ?self1 = "self\<lparr>container_file := None, is_closed := True\<rparr>"
  let ?oc = "c\<lparr>container_closed := True\<rparr>"
  let ?w1 = "put_file (path self) ?oc (w\<lparr>ticks := Suc (ticks w)\<rparr>)"
  let ?n = "length (streams c)"
  let ?nc = "\<lparr>streams = map (counterpart same_codec self) (streams c), packets = [],
             container_closed = False\<rparr>"
  let ?d = "AList.update ?n ?n (remap (enumerate_streams ?oc) 0 [])"
  from inv c have rc: "raw_container self c"
    by (simp add: writer_inv_def)
  have cl: "close e False (self, w) = (None, ?self1, ?w1)"
    by (rule close_False_writer [OF inv c])
  have raw: "list_all (raw_stream self) (streams ?oc)"
    using rc by (simp add: raw_container_def)
  have rb: "rebuild_streams same_codec ?self1 (enumerate_streams ?oc) empty_container []
      = (None, ?nc, remap (enumerate_streams ?oc) 0 [])"
    using rebuild_same_codec_raw [OF raw]
    by (simp add: rebuild_streams_cong_self [of ?self1 self])
  have pk: "list_all (raw_packet (length (streams ?oc))) (packets ?oc)"
    using rc by (simp add: raw_container_def)
  have dm: "filter is_packet_valid (demux ?oc [0..<length (streams ?oc)]) = packets c"
    using filter_valid_demux [OF pk] by simp
  have ids: "\<forall>p \<in> set (demux ?oc [0..<length (streams ?oc)]).
      is_packet_valid p \<longrightarrow> map_of ?d (stream_index p) = Some (stream_index p)"
    by (auto simp: update_conv map_of_remap_enumerate dest: demux_indices)
  have rm: "remux_packets ?d (demux ?oc [0..<length (streams ?oc)])
        (?nc\<lparr>streams := streams ?nc @ [created_stream f ''rawvideo'' ft]\<rparr>)
      = (None, \<lparr>streams = map (counterpart same_codec self) (streams c)
                           @ [created_stream f ''rawvideo'' ft],
                packets = packets c, container_closed = False\<rparr>)"
    using remux_packets_id [OF ids,
        of "?nc\<lparr>streams := streams ?nc @ [created_stream f ''rawvideo'' ft]\<rparr>"] dm
    by simp
  show ?thesis
    using ne new
    by (simp add: on_new_stream_def cl rb add_stream_to_container_eq rm [simplified]
        put_file_def remove_file_def fun_upd_twist)
qed


lemma list_all_update:
  "list_all P xs \<Longrightarrow> P (k, v) \<Longrightarrow> list_all P (AList.update k v xs)"
  by (induction xs) auto

lemma raw_packet_mono: "raw_packet n p \<Longrightarrow> n \<le> m \<Longrightarrow> raw_packet m p"
  by (simp add: raw_packet_def)

lemma raw_stream_upd [simp]:
  "raw_stream (self\<lparr>container_file := a\<rparr>) = raw_stream self"
  "raw_stream (self\<lparr>is_closed := b\<rparr>) = raw_stream self"
  "raw_stream (self\<lparr>feature_name_to_stream := d\<rparr>) = raw_stream self"
  by (rule ext, rule raw_stream_cong, simp)+

lemma raw_container_cong:
  assumes "feature_name_to_feature_type self1 = feature_name_to_feature_type self"
    and "feature_name_to_stream self1 = feature_name_to_stream self"
  shows "raw_container self1 c = raw_container self c"
proof -
  have "raw_stream self1 = raw_stream self"
    by (rule ext) (rule raw_stream_cong [OF assms(1)])
  then show ?thesis by (simp add: raw_container_def assms(2))
qed

lemma raw_container_grow:
  assumes "raw_container self c" and "list_all (raw_stream self) sts"
    and "length sts = length (streams c)" and "raw_stream self st"
  shows "raw_container
      (self\<lparr>container_file := cf,
            feature_name_to_stream := AList.update f (length (streams c)) (feature_name_to_stream self),
            is_closed := cl\<rparr>)
      \<lparr>streams = sts @ [st], packets = packets c, container_closed = b\<rparr>"
proof -
  have 1: "list_all (raw_packet (Suc (length (streams c)))) (packets c)"
    using assms(1) by (auto simp: raw_container_def list_all_iff intro: raw_packet_mono)
  have 2: "list_all (\<lambda>(n, i). i < Suc (length (streams c)))
      (AList.update f (length (streams c)) (feature_name_to_stream self))"
    using assms(1)
    by (intro list_all_update) (auto simp: raw_container_def list_all_iff)
  show ?thesis
    using assms(2,3,4) 1 2
    by (simp add: raw_container_def)
qed

lemma on_new_stream_writer:
  assumes inv: "writer_inv (self, w)" and c: "files w (path self) = Some c"
    and ty: "map_of (feature_name_to_feature_type self) f \<noteq> None"
  shows "\<exists>self1 w1 c1.
      (if map_of (feature_name_to_stream self) f = None
       then on_new_stream e f ''rawvideo'' ft (self, w) else (None, self, w))
        = (None, self1, w1)
      \<and> writer_inv (self1, w1) \<and> map_of (feature_name_to_stream self1) f \<noteq> None
      \<and> path self1 = path self
      \<and> files w1 (path self) = Some c1 \<and> packets c1 = packets c
      \<and> caches w1 = caches w \<and> ticks w \<le> ticks w1"
proof (cases "map_of (feature_name_to_stream self) f = None")
  case False
  then show ?thesis using inv c by auto
next
  case new: True
  from inv c have i: "\<not> is_closed self" "container_file self = Some (path self)"
      "raw_container self c"
    by (simp_all add: writer_inv_def)
  have created: "raw_stream self (created_stream f ''rawvideo'' ft)"
    by (rule raw_stream_created [OF ty])
  show ?thesis
  proof (cases "feature_name_to_stream self = []")
    case True
    have g: "raw_container
        (self\<lparr>container_file := Some (path self),
              feature_name_to_stream := AList.update f (length (streams c)) (feature_name_to_stream self),
              is_closed := False\<rparr>)
        \<lparr>streams = streams c @ [created_stream f ''rawvideo'' ft], packets = packets c,
         container_closed = container_closed c\<rparr>"
      using i(3) by (intro raw_container_grow created) (simp_all add: raw_container_def)
    have eq1: "self\<lparr>container_file := Some (path self),
              feature_name_to_stream := AList.update f (length (streams c)) (feature_name_to_stream self),
              is_closed := False\<rparr>
        = self\<lparr>feature_name_to_stream := [(f, length (streams c))]\<rparr>"
      using i(1,2) True by (cases self) simp
    have eq2: "c\<lparr>streams := streams c @ [created_stream f ''rawvideo'' ft]\<rparr>
        = \<lparr>streams = streams c @ [created_stream f ''rawvideo'' ft], packets = packets c,
           container_closed = container_closed c\<rparr>"
      by (cases c) simp
    show ?thesis
      using new True i(1,2) c g [unfolded eq1]
      by (simp add: on_new_stream_def add_stream_to_container_eq writer_inv_def eq2
          update_conv)
  next
    case False
    from on_new_stream_rewrite [OF inv c False new, of e ft]
    obtain w1 where r: "on_new_stream e f ''rawvideo'' ft (self, w)
        = (None,
           self\<lparr>container_file := Some (path self),
                feature_name_to_stream :=
                  AList.update f (length (streams c)) (feature_name_to_stream self),
                is_closed := False\<rparr>,
           w1)"
      and f1: "files w1 = (files w)
          (path self \<mapsto>
             \<lparr>streams = map (counterpart same_codec self) (streams c)
                          @ [created_stream f ''rawvideo'' ft],
              packets = packets c, container_closed = False\<rparr>,
           path self @ ''.temp'' := None)"
      and f2: "caches w1 = caches w" "ticks w1 = Suc (ticks w)"
      by blast
    have sts: "list_all (raw_stream self) (map (counterpart same_codec self) (streams c))"
      using i(3) by (auto simp: raw_container_def list_all_iff intro: counterpart_raw)
    have g: "raw_container
        (self\<lparr>container_file := Some (path self),
              feature_name_to_stream := AList.update f (length (streams c)) (feature_name_to_stream self),
              is_closed := False\<rparr>)
        \<lparr>streams = map (counterpart same_codec self) (streams c)
                     @ [created_stream f ''rawvideo'' ft],
         packets = packets c, container_closed = False\<rparr>"
      by (intro raw_container_grow created sts i(3)) simp
    show ?thesis
      using new r f1 f2 g
      by (simp add: writer_inv_def update_conv)
  qed
qed

lemma raw_stream_type_update:
  "raw_stream self st
   \<Longrightarrow> raw_stream (self\<lparr>feature_name_to_feature_type :=
                        AList.update f t (feature_name_to_feature_type self)\<rparr>) st"
  by (auto simp: raw_stream_def update_conv split: option.splits)

lemma writer_inv_type_update:
  assumes "writer_inv (self, w)"
  shows "writer_inv (self\<lparr>feature_name_to_feature_type :=
                        AList.update f t (feature_name_to_feature_type self)\<rparr>, w)"
  using assms
  by (auto simp: writer_inv_def raw_container_def list_all_iff split: option.splits
      intro: raw_stream_type_update)

lemma encode_frame_raw:
  "i < length (streams c) \<Longrightarrow> codec_name (streams c ! i) = ''rawvideo''
   \<Longrightarrow> encode_frame e v i ts c
       = (Inr [\<lparr>stream_index = i, pts = Some ts, dts = Some ts,
                packet_time_base = time_base (streams c ! i), payload = Pickled v\<rparr>], c)"
  by (simp add: encode_frame_def Let_def stamp_def)

lemma raw_container_mux:
  assumes "raw_container self c" and "raw_packet (length (streams c)) p"
  shows "raw_container self (mux p c)"
  using assms by (simp add: raw_container_def)

lemma add_writer:
  assumes inv: "writer_inv (self, w)" and c: "files w (path self) = Some c"
  shows "\<exists>self1 w1 c1 pk k. add e f (Leaf v) timestamp (self, w) = (None, self1, w1)
      \<and> writer_inv (self1, w1) \<and> path self1 = path self
      \<and> files w1 (path self) = Some c1 \<and> packets c1 = packets c @ [pk]
      \<and> dts pk = pts pk
      \<and> pts pk = Some (case timestamp of Some t \<Rightarrow> t | None \<Rightarrow> clock e k)
      \<and> ticks w \<le> k \<and> (timestamp = None \<longrightarrow> k < ticks w1)
      \<and> ticks w \<le> ticks w1 \<and> caches w1 = caches w"
proof -
  let ?s0 = "self\<lparr>feature_name_to_feature_type :=
      AList.update f (from_data v) (feature_name_to_feature_type self)\<rparr>"
  have inv0: "writer_inv (?s0, w)"
    by (rule writer_inv_type_update [OF inv])
  have c0: "files w (path ?s0) = Some c" using c by simp
  have ty: "map_of (feature_name_to_feature_type ?s0) f \<noteq> None"
    by (simp add: update_conv)
  from on_new_stream_writer [OF inv0 c0 ty, of e "from_data v"]
  obtain self2 w2 c2 where
    o: "(if map_of (feature_name_to_stream ?s0) f = None
         then on_new_stream e f ''rawvideo'' (from_data v) (?s0, w) else (None, ?s0, w))
        = (None, self2, w2)"
    and inv2: "writer_inv (self2, w2)"
    and st: "map_of (feature_name_to_stream self2) f \<noteq> None"
    and p2: "path self2 = path self"
    and f2: "files w2 (path self) = Some c2" "packets c2 = packets c"
    and w2: "caches w2 = caches w" "ticks w \<le> ticks w2"
    by auto
  from st obtain i where i: "map_of (feature_name_to_stream self2) f = Some i" by auto
  from inv2 f2(1) p2 have i2: "\<not> is_closed self2" "container_file self2 = Some (path self)"
      "raw_container self2 c2"
    by (simp_all add: writer_inv_def)
  from i i2(3) have il: "i < length (streams c2)"
    by (auto simp: raw_container_def list_all_iff dest!: map_of_SomeD)
  with i2(3) have raw: "codec_name (streams c2 ! i) = ''rawvideo''"
    by (simp add: raw_container_def list_all_length raw_stream_def)
  let ?ts = "case timestamp of Some t \<Rightarrow> t | None \<Rightarrow> clock e (ticks w2)"
  let ?w3 = "case timestamp of Some t \<Rightarrow> w2 | None \<Rightarrow> w2\<lparr>ticks := Suc (ticks w2)\<rparr>"
  let ?pk = "\<lparr>stream_index = i, pts = Some ?ts, dts = Some ?ts,
              packet_time_base = time_base (streams c2 ! i), payload = Pickled v\<rparr>"
  have t: "(case timestamp of None \<Rightarrow> get_current_timestamp e w2 | Some t \<Rightarrow> (t, w2))
      = (?ts, ?w3)"
    by (simp add: get_current_timestamp_def split: option.splits)
  have f3: "files ?w3 = files w2" "caches ?w3 = caches w2"
    by (simp_all split: option.splits)
  have run: "add e f (Leaf v) timestamp (self, w)
      = (None, self2, put_file (path self) (mux ?pk c2) ?w3)"
    using o i t i2(2) f2(1) f3(1)
    by (simp add: add_def Let_def encode_frame_raw [OF il raw])
  have rp: "raw_packet (length (streams c2)) ?pk"
    using il by (simp add: raw_packet_def)
  have inv3: "writer_inv (self2, put_file (path self) (mux ?pk c2) ?w3)"
    using i2 p2 raw_container_mux [OF i2(3) rp]
    by (simp add: writer_inv_def)
  show ?thesis
    apply (rule exI [of _ self2])
    apply (rule exI [of _ "put_file (path self) (mux ?pk c2) ?w3"])
    apply (rule exI [of _ "mux ?pk c2"])
    apply (rule exI [of _ ?pk])
    apply (rule exI [of _ "ticks w2"])
    using run inv3 p2 f2 w2 f3
    by (simp split: option.splits)
qed

lemma add_each_writer:
  assumes "writer_inv (self, w)" and "files w (path self) = Some c"
  shows "\<exists>self1 w1 c1 qs. add_each e flat ts (self, w) = (None, self1, w1)
      \<and> writer_inv (self1, w1) \<and> path self1 = path self
      \<and> files w1 (path self) = Some c1 \<and> packets c1 = packets c @ qs
      \<and> length qs = length flat \<and> list_all (stamped ts) qs
      \<and> ticks w \<le> ticks w1 \<and> caches w1 = caches w"
  using assms
proof (induction flat arbitrary: self w c)
  case Nil
  then show ?case by simp
next
  case (Cons a flat)
  obtain f v where a: "a = (f, v)" by (cases a)
  from add_writer [OF Cons.prems, of e f v "Some ts"]
  obtain self1 w1 c1 pk where
    r: "add e f (Leaf v) (Some ts) (self, w) = (None, self1, w1)"
    and i1: "writer_inv (self1, w1)" and p1: "path self1 = path self"
    and f1: "files w1 (path self) = Some c1" "packets c1 = packets c @ [pk]"
    and s1: "dts pk = pts pk" "pts pk = Some ts"
    and w1: "ticks w \<le> ticks w1" "caches w1 = caches w"
    by auto
  from f1(1) p1 have f1': "files w1 (path self1) = Some c1" by simp
  from Cons.IH [OF i1 f1']
  obtain self2 w2 c2 qs where
    r2: "add_each e flat ts (self1, w1) = (None, self2, w2)"
    and i2: "writer_inv (self2, w2)" and p2: "path self2 = path self1"
    and f2: "files w2 (path self1) = Some c2" "packets c2 = packets c1 @ qs"
    and s2: "length qs = length flat" "list_all (stamped ts) qs"
    and w2: "ticks w1 \<le> ticks w2" "caches w2 = caches w1"
    by auto
  have spk: "stamped ts pk" using s1 by (simp add: stamped_def)
  show ?case
    apply (rule exI [of _ self2])
    apply (rule exI [of _ w2])
    apply (rule exI [of _ c2])
    apply (rule exI [of _ "pk # qs"])
    using a r r2 i2 p1 p2 f1 f2 spk s2 w1 w2
    by simp
qed

lemma add_by_dict_writer:
  assumes "writer_inv (self, w)" and "files w (path self) = Some c"
  shows "\<exists>self1 w1 c1 qs. add_by_dict e (Dict d) timestamp (self, w) = (None, self1, w1)
      \<and> writer_inv (self1, w1) \<and> path self1 = path self
      \<and> files w1 (path self) = Some c1 \<and> packets c1 = packets c @ qs
      \<and> length qs = length (flatten_dict d (feature_name_separator self))
      \<and> list_all (stamped (case timestamp of Some t \<Rightarrow> t | None \<Rightarrow> clock e (ticks w))) qs
      \<and> ticks w \<le> ticks w1 \<and> (timestamp = None \<longrightarrow> ticks w < ticks w1)
      \<and> caches w1 = caches w"
proof (cases timestamp)
  case None
  let ?w0 = "w\<lparr>ticks := Suc (ticks w)\<rparr>"
  have i0: "writer_inv (self, ?w0)" using assms(1) by (simp add: writer_inv_def)
  have f0: "files ?w0 (path self) = Some c" using assms(2) by simp
  from add_each_writer [OF i0 f0, of e "flatten_dict d (feature_name_separator self)"
      "clock e (ticks w)"]
  show ?thesis
    using None by (auto simp: add_by_dict_def get_current_timestamp_def)
next
  case (Some t)
  from add_each_writer [OF assms, of e "flatten_dict d (feature_name_separator self)" t]
  show ?thesis
    using Some by (auto simp: add_by_dict_def)
qed

end
